theory Spec2Isabelle
  imports Complex_Main "HOL-Library.AList"
begin

section \<open>Python building blocks\<close>

text \<open>
  Python floats are modelled as exact reals: the arithmetic below is the arithmetic of the
  source with the rounding error of IEEE doubles left out. Exceptions are values of
  \<open>py_error\<close>; a function of the source that can raise returns \<open>py_error + 'a\<close>.
\<close>

datatype py_error =
  TypeError | KeyError | IndexError | ZeroDivisionError | AttributeError | NameError | ValueError

text \<open>
  Python values, as far as the modelled code handles them: \<open>None\<close>, booleans, numbers
  (ints and floats alike), strings, lists, and dicts with string keys. A dict is an
  association list in insertion order; \<open>map_of\<close> reads it and \<open>AList.update\<close> writes it
  (an existing key keeps its place, a new key goes to the end).
\<close>

datatype pyval =
  PNone
  | PBool bool
  | PNum real
  | PStr string
  | PList "pyval list"
  | PDict "(string \<times> pyval) list"

definition ebind :: "'e + 'a \<Rightarrow> ('a \<Rightarrow> 'e + 'b) \<Rightarrow> 'e + 'b" where
  "ebind m f = (case m of Inl e \<Rightarrow> Inl e | Inr x \<Rightarrow> f x)"

text \<open>\<open>v.get(k, d)\<close>: only a dict has the method.\<close>

definition py_get :: "pyval \<Rightarrow> string \<Rightarrow> pyval \<Rightarrow> py_error + pyval" where
  "py_get v k d =
     (case v of
        PDict kvs \<Rightarrow> Inr (case map_of kvs k of None \<Rightarrow> d | Some x \<Rightarrow> x)
      | _ \<Rightarrow> Inl AttributeError)"

text \<open>
  \<open>v[k]\<close> with a string key \<open>k\<close>: KeyError on a dict without the key, TypeError on
  every value that is not a dict (a string or a list wants an integer index, the others are
  not subscriptable).
\<close>

definition py_getitem :: "pyval \<Rightarrow> string \<Rightarrow> py_error + pyval" where
  "py_getitem v k =
     (case v of
        PDict kvs \<Rightarrow> (case map_of kvs k of None \<Rightarrow> Inl KeyError | Some x \<Rightarrow> Inr x)
      | _ \<Rightarrow> Inl TypeError)"


text \<open>
  The operand of an ordering comparison or of arithmetic with a number: a number, or a
  boolean counting as 0 or 1; any other value raises TypeError.
\<close>

definition py_num :: "pyval \<Rightarrow> py_error + real" where
  "py_num v =
     (case v of
        PNum x \<Rightarrow> Inr x
      | PBool b \<Rightarrow> Inr (if b then 1 else 0)
      | _ \<Rightarrow> Inl TypeError)"

text \<open>\<open>v > c\<close> for a number \<open>c\<close>.\<close>

definition py_gt :: "pyval \<Rightarrow> real \<Rightarrow> py_error + bool" where
  "py_gt v c = ebind (py_num v) (\<lambda>x. Inr (x > c))"


text \<open>
  \<open>round(x, n)\<close>: to \<open>n\<close> decimals, a tie going to the even neighbour.
\<close>

definition round_half_even :: "real \<Rightarrow> int" where
  "round_half_even y =
     (let f = \<lfloor>y\<rfloor>; d = y - of_int f
      in if d < 1 / 2 then f else if d > 1 / 2 then f + 1 else if even f then f else f + 1)"

definition py_round :: "nat \<Rightarrow> real \<Rightarrow> real" where
  "py_round n x = of_int (round_half_even (x * 10 ^ n)) / 10 ^ n"

section \<open>Edge Processor: density buckets (edge\_processor.py)\<close>

text \<open>
  \<open>self.density_thresholds\<close> is a dict with the keys normal, moderate, high and critical;
  \<open>self.grid_area\<close> is the configured area in square metres.
\<close>

record density_thresholds =
  th_normal :: int
  th_moderate :: int
  th_high :: int
  th_critical :: int

definition default_thresholds :: density_thresholds where
  "default_thresholds = \<lparr>th_normal = 60, th_moderate = 100, th_high = 150, th_critical = 200\<rparr>"

definition calculate_crowd_density ::
  "density_thresholds \<Rightarrow> real \<Rightarrow> int \<Rightarrow> py_error + (string \<times> real)" where
  "calculate_crowd_density th grid_area people_count =
     (if grid_area = 0 then Inl ZeroDivisionError
      else
        let density_per_sqm = of_int people_count / grid_area;
            density_percentage = min ((density_per_sqm / 4) * 100) 100;
            density_level =
              (if people_count \<le> th_normal th then ''low''
               else if people_count \<le> th_moderate th then ''moderate''
               else if people_count \<le> th_high th then ''high''
               else ''critical'')
        in Inr (density_level, py_round 2 density_percentage))"

definition get_threshold_status :: "density_thresholds \<Rightarrow> int \<Rightarrow> string" where
  "get_threshold_status th people_count =
     (if people_count \<le> th_normal th then ''normal''
      else if people_count \<le> th_moderate th then ''moderate''
      else if people_count \<le> th_high th then ''high''
      else ''critical'')"

text \<open>The level returned by \<open>calculate_crowd_density\<close>, when it returns.\<close>

definition density_level_of :: "density_thresholds \<Rightarrow> real \<Rightarrow> int \<Rightarrow> string option" where
  "density_level_of th grid_area people_count =
     (case calculate_crowd_density th grid_area people_count of
        Inl e \<Rightarrow> None | Inr (lvl, pct) \<Rightarrow> Some lvl)"

text \<open>The order low/normal < moderate < high < critical on the level names.\<close>

definition level_rank :: "string \<Rightarrow> nat" where
  "level_rank s =
     (if s = ''low'' \<or> s = ''normal'' then 0
      else if s = ''moderate'' then 1
      else if s = ''high'' then 2
      else if s = ''critical'' then 3
      else 4)"

definition level_rank_opt :: "string option \<Rightarrow> nat" where
  "level_rank_opt r = (case r of None \<Rightarrow> 4 | Some s \<Rightarrow> level_rank s)"


section \<open>Device Monitor: health score (device\_monitor.py)\<close>












section \<open>Edge Application: health loop (main.py)\<close>

text \<open>
  One pass through the \<open>try\<close> block of \<open>monitor_device_health\<close>, after
  \<open>get_health_status\<close> has returned \<open>health_data\<close>: the three comparisons, each logging a
  warning when it holds, in the order of the source. \<open>Inr\<close> carries the warnings logged
  on the way to the publish call; \<open>Inl\<close> is the exception that leaves the block.
\<close>

definition health_checks :: "pyval \<Rightarrow> py_error + string list" where
  "health_checks health_data =
     ebind (py_getitem health_data ''cpu_temperature'') (\<lambda>cpu_temperature.
     ebind (py_gt cpu_temperature 80) (\<lambda>hot.
     let w1 = (if hot then [''High CPU temperature''] else []) in
     ebind (py_getitem health_data ''memory_usage'') (\<lambda>memory_usage.
     ebind (py_gt memory_usage 90) (\<lambda>full.
     let w2 = (if full then w1 @ [''High memory usage''] else w1) in
     ebind (py_getitem health_data ''disk_usage'') (\<lambda>disk_usage.
     ebind (py_gt disk_usage 85) (\<lambda>disk_full.
     let w3 = (if disk_full then w2 @ [''High disk usage''] else w2) in
     Inr w3))))))"

text \<open>
  The outcome of one iteration of the loop: the publish call on the health topic is reached,
  or the \<open>except\<close> branch logs the error; either way the loop sleeps and goes on.
\<close>

datatype health_iteration = PublishReached "string list" | ErrorLogged py_error

definition monitor_device_health_iteration :: "pyval \<Rightarrow> health_iteration" where
  "monitor_device_health_iteration health_data =
     (case health_checks health_data of
        Inl e \<Rightarrow> ErrorLogged e
      | Inr warnings \<Rightarrow> PublishReached warnings)"

text \<open>
  What every return path of \<open>get_health_status\<close> guarantees about its record: the CPU
  temperature is a number (\<open>_get_cpu_temperature\<close> returns a float on each path, the error
  record holds 0), and \<open>memory_usage\<close> and \<open>disk_usage\<close> are dicts
  (\<open>_get_memory_usage\<close> and \<open>_get_disk_usage\<close> return dicts on each path, the error
  record holds \<open>{'percentage': 0}\<close> and \<open>{}\<close>).
\<close>

definition is_number :: "pyval \<Rightarrow> bool" where
  "is_number v = (case v of PNum x \<Rightarrow> True | _ \<Rightarrow> False)"

definition is_dict :: "pyval \<Rightarrow> bool" where
  "is_dict v = (case v of PDict kvs \<Rightarrow> True | _ \<Rightarrow> False)"

definition field_is :: "(pyval \<Rightarrow> bool) \<Rightarrow> pyval \<Rightarrow> string \<Rightarrow> bool" where
  "field_is P v k = (case py_getitem v k of Inl e \<Rightarrow> False | Inr x \<Rightarrow> P x)"

definition well_formed_health :: "pyval \<Rightarrow> bool" where
  "well_formed_health health_data =
     (field_is is_number health_data ''cpu_temperature''
      \<and> field_is is_dict health_data ''memory_usage''
      \<and> field_is is_dict health_data ''disk_usage'')"

text \<open>
  A record as \<open>get_health_status\<close> returns it on a healthy device: 45 degrees, 20 percent
  memory, one mount at 50 percent.
\<close>

definition sample_health :: pyval where
  "sample_health =
     PDict [(''timestamp'', PStr ''2024-01-01T00:00:00+00:00''),
            (''cpu_temperature'', PNum 45),
            (''cpu_usage'', PDict [(''overall'', PNum 10), (''per_core'', PList []),
                                  (''core_count'', PNum 4)]),
            (''memory_usage'', PDict [(''total'', PNum 4096), (''available'', PNum 3276),
                                     (''used'', PNum 820), (''percentage'', PNum 20)]),
            (''disk_usage'', PDict [(''/'', PDict [(''total'', PNum 1000), (''used'', PNum 500),
                                                   (''free'', PNum 500),
                                                   (''percentage'', PNum 50),
                                                   (''filesystem'', PStr ''ext4'')])]),
            (''network_stats'', PDict [(''connectivity'', PBool True)]),
            (''camera_status'', PDict [(''available'', PBool True)]),
            (''health_score'', PNum 100),
            (''alerts'', PList [])]"

section \<open>Messaging Client: publish and the offline queue (mqtt\_client.py)\<close>

text \<open>
  The client's state, as far as \<open>publish\<close> and \<open>_queue_message\<close> read or write it.
  \<open>delivered\<close> is the trace of messages the broker client accepted (return code
  \<open>MQTT_ERR_SUCCESS\<close>), \<open>log_records\<close> the trace of log records, both oldest first.
  \<open>mqtt_available\<close> is the module flag \<open>MQTT_AVAILABLE\<close>: when the import of the
  broker library failed, the name \<open>mqtt\<close> is unbound. \<open>connected_flag\<close> is
  \<open>self.connected\<close>, \<open>client_present\<close> says that \<open>self.client\<close> is not \<open>None\<close>.
\<close>

record message =
  msg_topic :: string
  msg_payload :: string
  msg_qos :: int
  msg_retain :: bool

record queued_message =
  q_message :: message
  q_timestamp :: real

datatype log_level = Debug | Info | Warning | Error

record mqtt_state =
  connected_flag :: bool
  client_present :: bool
  mqtt_available :: bool
  default_qos :: int
  message_queue :: "queued_message list"
  delivered :: "message list"
  log_records :: "(log_level \<times> string) list"

definition max_queue_size :: nat where
  "max_queue_size = 1000"

text \<open>
  What \<open>self.client.publish\<close> does when called: it returns a result with a return code
  (0 is \<open>MQTT_ERR_SUCCESS\<close>) or raises.
\<close>

datatype broker_reply = ReturnCode int | Raises

definition add_log :: "log_level \<Rightarrow> string \<Rightarrow> mqtt_state \<Rightarrow> mqtt_state" where
  "add_log lvl text st = st\<lparr>log_records := log_records st @ [(lvl, text)]\<rparr>"

text \<open>\<open>_queue_message\<close>; \<open>now\<close> is the reading of \<open>time.time()\<close>.\<close>

definition queue_message :: "mqtt_state \<Rightarrow> message \<Rightarrow> real \<Rightarrow> mqtt_state" where
  "queue_message st m now =
     (let st1 =
            (if length (message_queue st) \<ge> max_queue_size
             then add_log Warning ''Message queue full, removed oldest message''
                    (st\<lparr>message_queue := tl (message_queue st)\<rparr>)
             else st);
          st2 = st1\<lparr>message_queue :=
                      message_queue st1 @ [\<lparr>q_message = m, q_timestamp = now\<rparr>]\<rparr>
      in add_log Debug ''Queued message'' st2)"

text \<open>
  \<open>publish(topic, payload, qos, retain)\<close>. \<open>reply\<close> is what the broker client answers
  if it is called, \<open>now\<close> the clock reading a queued message is stamped with. The source
  has no \<open>else\<close> branch for a client that is not connected.
\<close>

definition publish ::
  "mqtt_state \<Rightarrow> string \<Rightarrow> string \<Rightarrow> int option \<Rightarrow> bool \<Rightarrow> broker_reply \<Rightarrow> real \<Rightarrow> mqtt_state"
  where
  "publish st topic payload qos retain reply now =
     (let qos' = (case qos of None \<Rightarrow> default_qos st | Some q \<Rightarrow> q);
          m = \<lparr>msg_topic = topic, msg_payload = payload, msg_qos = qos', msg_retain = retain\<rparr>
      in if connected_flag st \<and> client_present st then
           (case reply of
              Raises \<Rightarrow>
                queue_message (add_log Error ''Error publishing message'' st) m now
            | ReturnCode rc \<Rightarrow>
                (let st1 = (if rc = 0 then st\<lparr>delivered := delivered st @ [m]\<rparr> else st)
                 in if \<not> mqtt_available st then
                      queue_message (add_log Error ''Error publishing message'' st1) m now
                    else if rc \<noteq> 0 then
                      queue_message (add_log Warning ''Publish failed'' st1) m now
                    else st1))
         else st)"

text \<open>A client that lost its connection, with an empty queue.\<close>

definition offline_client :: mqtt_state where
  "offline_client =
     \<lparr>connected_flag = False, client_present = True, mqtt_available = True, default_qos = 1,
      message_queue = [], delivered = [], log_records = []\<rparr>"

section \<open>Behavior Analyzer: temporal smoothing (behavior\_analyzer.py)\<close>

definition behavior_classes :: "string list" where
  "behavior_classes =
     [''normal'', ''panic'', ''running'', ''fighting'', ''falling'', ''unusual_gathering'',
      ''crowd_surge'', ''evacuation'']"

text \<open>A prediction vector is a dict from class name to score.\<close>

type_synonym scores = "(string \<times> real) list"

text \<open>
  \<open>deque(maxlen=n).append(x)\<close>: a full deque drops its oldest element.
\<close>

definition deque_append :: "nat \<Rightarrow> 'a list \<Rightarrow> 'a \<Rightarrow> 'a list" where
  "deque_append maxlen d x = (if length d \<ge> maxlen then tl d @ [x] else d @ [x])"

definition history_maxlen :: nat where
  "history_maxlen = 5"

definition smoothing_weights :: "real list" where
  "smoothing_weights = [1 / 10, 2 / 10, 3 / 10, 4 / 10]"

text \<open>
  \<open>np.average(a, weights=w)\<close> on one-dimensional data: numpy raises TypeError when the
  two shapes differ (no axis is given) and ZeroDivisionError when the weights sum to zero.
\<close>

definition np_average :: "real list \<Rightarrow> real list \<Rightarrow> py_error + real" where
  "np_average a w =
     (if length a \<noteq> length w then Inl TypeError
      else if sum_list w = 0 then Inl ZeroDivisionError
      else Inr (sum_list (map (\<lambda>(x, y). x * y) (zip a w)) / sum_list w))"

text \<open>\<open>[pred[behavior] for pred in history]\<close>: KeyError when a vector lacks the class.\<close>

fun class_scores :: "scores list \<Rightarrow> string \<Rightarrow> py_error + real list" where
  "class_scores [] behavior = Inr []"
| "class_scores (pred # rest) behavior =
     (case map_of pred behavior of
        None \<Rightarrow> Inl KeyError
      | Some s \<Rightarrow> ebind (class_scores rest behavior) (\<lambda>ss. Inr (s # ss)))"

text \<open>The loop over \<open>self.behavior_classes\<close> that fills \<open>smoothed_predictions\<close>.\<close>

fun smooth_classes :: "scores list \<Rightarrow> real list \<Rightarrow> string list \<Rightarrow> py_error + scores" where
  "smooth_classes history weights [] = Inr []"
| "smooth_classes history weights (behavior # rest) =
     ebind (class_scores history behavior) (\<lambda>ss.
     ebind (np_average ss (take (length ss) weights)) (\<lambda>smoothed_score.
     ebind (smooth_classes history weights rest) (\<lambda>more.
     Inr ((behavior, smoothed_score) # more))))"

text \<open>
  \<open>_apply_temporal_smoothing\<close>: returns the prediction history after the call (the append
  has happened whether or not the averaging raises) and the smoothed scores or the
  exception.
\<close>

definition apply_temporal_smoothing ::
  "scores list \<Rightarrow> scores \<Rightarrow> scores list \<times> (py_error + scores)" where
  "apply_temporal_smoothing prediction_history current_predictions =
     (let history = deque_append history_maxlen prediction_history current_predictions;
          weights0 = take (length history) smoothing_weights;
          weights = map (\<lambda>w. w / sum_list weights0) weights0
      in (history, smooth_classes history weights behavior_classes))"

text \<open>The distribution \<open>analyze_sequence\<close> returns from its \<open>except\<close> branch.\<close>

definition fallback_scores :: scores where
  "fallback_scores = map (\<lambda>b. (b, if b = ''normal'' then 1 else 0)) behavior_classes"

text \<open>
  \<open>analyze_sequence\<close>, from the model's answer on: \<open>model_output\<close> is the per-class score
  dict built from the prediction, or the exception the inference raised. The record of
  processing times is left out.
\<close>

definition analyze_sequence ::
  "scores list \<Rightarrow> py_error + scores \<Rightarrow> scores list \<times> scores" where
  "analyze_sequence prediction_history model_output =
     (case model_output of
        Inl e \<Rightarrow> (prediction_history, fallback_scores)
      | Inr behavior_scores \<Rightarrow>
          (case apply_temporal_smoothing prediction_history behavior_scores of
             (history, Inl e) \<Rightarrow> (history, fallback_scores)
           | (history, Inr smoothed_scores) \<Rightarrow> (history, smoothed_scores)))"

text \<open>A prediction vector giving one score to every class, and one that detects panic.\<close>

definition uniform_scores :: "real \<Rightarrow> scores" where
  "uniform_scores x = map (\<lambda>b. (b, x)) behavior_classes"

definition panic_scores :: scores where
  "panic_scores = map (\<lambda>b. (b, if b = ''panic'' then 1 else 0)) behavior_classes"

section \<open>Edge Processor: alert generation and cooldown (edge\_processor.py)\<close>

text \<open>
  \<open>self.alert_cooldown\<close> maps an alert key to the time until which the key is cooling
  down. The clock is an input: \<open>now\<close> is the reading of \<open>time.time()\<close>, one reading for
  each evaluation of \<open>generate_alerts\<close>, as a simulated clock gives it.
\<close>

type_synonym cooldowns = "string \<rightharpoonup> real"

definition is_alert_in_cooldown :: "cooldowns \<Rightarrow> real \<Rightarrow> string \<Rightarrow> bool" where
  "is_alert_in_cooldown alert_cooldown now alert_key =
     (case alert_cooldown alert_key of
        None \<Rightarrow> False
      | Some cooldown_until \<Rightarrow> now < cooldown_until)"

definition set_alert_cooldown :: "cooldowns \<Rightarrow> real \<Rightarrow> string \<Rightarrow> real \<Rightarrow> cooldowns" where
  "set_alert_cooldown alert_cooldown now alert_key cooldown_seconds =
     alert_cooldown(alert_key \<mapsto> now + cooldown_seconds)"

text \<open>
  The inputs of \<open>generate_alerts\<close> besides the people count: the behavior alerts of
  \<open>analyze_behavior\<close> and the emergency status of \<open>detect_emergencies\<close>.
\<close>

record behavior_alert =
  ba_behavior :: string
  ba_confidence :: real
  ba_severity :: string

record emergency_status =
  es_status :: string
  es_type :: "string option"
  es_confidence :: real

text \<open>
  An alert, without its random \<open>id\<close> and its message text. The detail holds the fields
  special to the alert type.
\<close>

datatype alert_detail =
  DensityDetail int int
  | BehaviorDetail string real
  | EmergencyDetail "string option" real

record alert =
  alert_type :: string
  alert_severity :: string
  alert_grid_id :: string
  alert_timestamp :: real
  alert_detail :: alert_detail

text \<open>\<open>self.density_thresholds.get(threshold_status, 0)\<close>.\<close>

definition threshold_of :: "density_thresholds \<Rightarrow> string \<Rightarrow> int" where
  "threshold_of th status =
     (if status = ''normal'' then th_normal th
      else if status = ''moderate'' then th_moderate th
      else if status = ''high'' then th_high th
      else if status = ''critical'' then th_critical th
      else 0)"

text \<open>\<open>str(x)\<close> inside the key of an emergency alert: the type may be \<open>None\<close>.\<close>

definition type_name :: "string option \<Rightarrow> string" where
  "type_name ty = (case ty of None \<Rightarrow> ''None'' | Some s \<Rightarrow> s)"

text \<open>The loop over the behavior alerts: 30 seconds of cooldown for each behavior.\<close>

fun behavior_alert_loop ::
  "string \<Rightarrow> real \<Rightarrow> behavior_alert list \<Rightarrow> alert list \<times> cooldowns \<Rightarrow> alert list \<times> cooldowns"
  where
  "behavior_alert_loop grid now [] acc = acc"
| "behavior_alert_loop grid now (ba # rest) (alerts, cd) =
     (if ba_severity ba = ''high'' \<or> ba_severity ba = ''critical'' then
        (let alert_key = ''behavior_'' @ ba_behavior ba
         in if \<not> is_alert_in_cooldown cd now alert_key then
              behavior_alert_loop grid now rest
                (alerts @ [\<lparr>alert_type = ''behavior_anomaly'',
                             alert_severity = ba_severity ba,
                             alert_grid_id = grid, alert_timestamp = now,
                             alert_detail = BehaviorDetail (ba_behavior ba) (ba_confidence ba)\<rparr>],
                 set_alert_cooldown cd now alert_key 30)
            else behavior_alert_loop grid now rest (alerts, cd))
      else behavior_alert_loop grid now rest (alerts, cd))"

text \<open>The first block of \<open>generate_alerts\<close>: the crowd-density alert, 60 seconds.\<close>

definition density_alert_step ::
  "density_thresholds \<Rightarrow> string \<Rightarrow> real \<Rightarrow> int \<Rightarrow> cooldowns \<Rightarrow> alert list \<times> cooldowns" where
  "density_alert_step th grid now people_count cd =
     (let threshold_status = get_threshold_status th people_count
      in if threshold_status = ''high'' \<or> threshold_status = ''critical'' then
           (let alert_key = ''density_'' @ threshold_status
            in if \<not> is_alert_in_cooldown cd now alert_key then
                 ([\<lparr>alert_type = ''crowd_density'', alert_severity = threshold_status,
                    alert_grid_id = grid, alert_timestamp = now,
                    alert_detail =
                      DensityDetail people_count (threshold_of th threshold_status)\<rparr>],
                  set_alert_cooldown cd now alert_key 60)
               else ([], cd))
         else ([], cd))"

text \<open>The last block: the emergency alert, 10 seconds.\<close>

definition emergency_alert_step ::
  "string \<Rightarrow> real \<Rightarrow> emergency_status \<Rightarrow> alert list \<times> cooldowns \<Rightarrow> alert list \<times> cooldowns"
  where
  "emergency_alert_step grid now emergency acc =
     (if es_status emergency = ''warning'' \<or> es_status emergency = ''emergency'' then
        (let alert_key = ''emergency_'' @ type_name (es_type emergency)
         in if \<not> is_alert_in_cooldown (snd acc) now alert_key then
              (fst acc @
                 [\<lparr>alert_type = ''emergency'',
                   alert_severity =
                     (if es_status emergency = ''emergency'' then ''critical'' else ''high''),
                   alert_grid_id = grid, alert_timestamp = now,
                   alert_detail =
                     EmergencyDetail (es_type emergency) (es_confidence emergency)\<rparr>],
               set_alert_cooldown (snd acc) now alert_key 10)
            else acc)
      else acc)"

text \<open>
  \<open>generate_alerts\<close>: the alerts of this evaluation and the cooldown table after it, the
  three blocks in the order of the source. The loop that publishes the alerts comes last
  and does not change the list returned.
\<close>

definition generate_alerts ::
  "density_thresholds \<Rightarrow> string \<Rightarrow> cooldowns \<Rightarrow> real \<Rightarrow> int \<Rightarrow> behavior_alert list \<Rightarrow>
   emergency_status \<Rightarrow> alert list \<times> cooldowns" where
  "generate_alerts th grid cd now people_count behavior_alerts emergency =
     emergency_alert_step grid now emergency
       (behavior_alert_loop grid now behavior_alerts
          (density_alert_step th grid now people_count cd))"

text \<open>A run of evaluations, each at its own time and with its own inputs.\<close>

record evaluation =
  ev_time :: real
  ev_people_count :: int
  ev_behavior_alerts :: "behavior_alert list"
  ev_emergency :: emergency_status

fun run_evaluations ::
  "density_thresholds \<Rightarrow> string \<Rightarrow> cooldowns \<Rightarrow> evaluation list \<Rightarrow> alert list list \<times> cooldowns"
  where
  "run_evaluations th grid cd [] = ([], cd)"
| "run_evaluations th grid cd (ev # evs) =
     (case generate_alerts th grid cd (ev_time ev) (ev_people_count ev)
             (ev_behavior_alerts ev) (ev_emergency ev) of
        (alerts, cd') \<Rightarrow>
          (case run_evaluations th grid cd' evs of
             (outs, cd'') \<Rightarrow> (alerts # outs, cd'')))"

text \<open>The crowd-density alerts of a given status (those of the key \<open>density_<status>\<close>).\<close>

definition density_alerts :: "string \<Rightarrow> alert list \<Rightarrow> alert list" where
  "density_alerts status alerts =
     filter (\<lambda>a. alert_type a = ''crowd_density'' \<and> alert_severity a = status) alerts"

text \<open>An alert key of the crowd-density block starts with the letter d.\<close>

definition density_key :: "string \<Rightarrow> bool" where
  "density_key k = (case k of [] \<Rightarrow> False | c # cs \<Rightarrow> c = CHR ''d'')"

text \<open>
  The condition under which the first block emits an alert of status \<open>s\<close>: the count
  has that status, the status is high or critical, and its key is not cooling down.
\<close>

definition density_alert_due ::
  "density_thresholds \<Rightarrow> cooldowns \<Rightarrow> real \<Rightarrow> int \<Rightarrow> string \<Rightarrow> bool" where
  "density_alert_due th cd now n s =
     (get_threshold_status th n = s \<and> (s = ''high'' \<or> s = ''critical'')
      \<and> \<not> is_alert_in_cooldown cd now (''density_'' @ s))"

definition clear_status :: emergency_status where
  "clear_status = \<lparr>es_status = ''clear'', es_type = None, es_confidence = 0\<rparr>"

definition crowded :: "real \<Rightarrow> int \<Rightarrow> evaluation" where
  "crowded t n =
     \<lparr>ev_time = t, ev_people_count = n, ev_behavior_alerts = [], ev_emergency = clear_status\<rparr>"

section \<open>Emergency Detector: score enhancement (emergency\_detector.py)\<close>

definition emergency_classes :: "string list" where
  "emergency_classes =
     [''normal'', ''fire'', ''smoke'', ''accident'', ''medical_emergency'',
      ''structural_damage'', ''flood'', ''explosion'']"

text \<open>
  What the colour analysis measures on a frame: the number of pixels inside the fire mask,
  inside the smoke mask, and in the frame. The image operations that produce the masks
  are outside the model.
\<close>

record frame_stats =
  fire_pixels :: nat
  smoke_pixels :: nat
  total_pixels :: nat

text \<open>
  \<open>_analyze_fire_colors\<close> and \<open>_analyze_smoke_colors\<close>; an empty frame makes the colour
  conversion raise, and the \<open>except\<close> branch answers 0.
\<close>

definition analyze_fire_colors :: "frame_stats \<Rightarrow> real" where
  "analyze_fire_colors frame =
     (if total_pixels frame = 0 then 0
      else min 1 ((real (fire_pixels frame) / real (total_pixels frame)) * 10))"

definition analyze_smoke_colors :: "frame_stats \<Rightarrow> real" where
  "analyze_smoke_colors frame =
     (if total_pixels frame = 0 then 0
      else min 1 ((real (smoke_pixels frame) / real (total_pixels frame)) * 5))"

text \<open>\<open>np.var\<close>: the mean of the squared distances from the mean.\<close>

definition np_mean :: "real list \<Rightarrow> real" where
  "np_mean xs = sum_list xs / real (length xs)"

definition np_var :: "real list \<Rightarrow> real" where
  "np_var xs = np_mean (map (\<lambda>x. (x - np_mean xs)\<^sup>2) xs)"

text \<open>
  The loop of \<open>_analyze_motion_patterns\<close> over the classes: the variances of the recent
  scores of every class but normal are added up; a missing class raises KeyError.
\<close>

fun variance_loop :: "scores list \<Rightarrow> string list \<Rightarrow> real \<Rightarrow> py_error + real" where
  "variance_loop recent [] acc = Inr acc"
| "variance_loop recent (emergency # rest) acc =
     (if emergency \<noteq> ''normal'' then
        ebind (class_scores recent emergency) (\<lambda>ss.
        variance_loop recent rest (if length ss > 1 then acc + np_var ss else acc))
      else variance_loop recent rest acc)"

text \<open>\<open>xs[-n:]\<close> for a positive \<open>n\<close>: the last \<open>n\<close> elements, all of them if there are fewer.\<close>

definition last_n :: "nat \<Rightarrow> 'a list \<Rightarrow> 'a list" where
  "last_n n xs = drop (length xs - n) xs"

definition analyze_motion_patterns :: "scores list \<Rightarrow> real" where
  "analyze_motion_patterns detection_history =
     (if length detection_history < 2 then 0
      else
        case variance_loop (last_n 5 detection_history) emergency_classes 0 of
          Inl e \<Rightarrow> 0
        | Inr emergency_variance \<Rightarrow> min 1 (emergency_variance * 2))"

record emergency_detector =
  use_color_analysis :: bool
  use_motion_analysis :: bool
  detection_history :: "scores list"

text \<open>\<open>d[k] = min(1.0, d[k] + boost)\<close>: KeyError when the key is missing.\<close>

definition boost_score :: "scores \<Rightarrow> string \<Rightarrow> real \<Rightarrow> py_error + scores" where
  "boost_score d k boost =
     (case map_of d k of
        None \<Rightarrow> Inl KeyError
      | Some v \<Rightarrow> Inr (AList.update k (min 1 (v + boost)) d))"

definition normalize_scores :: "scores \<Rightarrow> scores" where
  "normalize_scores d =
     (let total_score = sum_list (map snd d)
      in if total_score > 0 then map (\<lambda>(k, v). (k, v / total_score)) d else d)"

text \<open>
  \<open>_enhance_detection\<close>. An exception inside the \<open>try\<close> block leaves the scores as
  they are at that point, and they are returned so.
\<close>

definition enhance_detection :: "emergency_detector \<Rightarrow> frame_stats \<Rightarrow> scores \<Rightarrow> scores" where
  "enhance_detection det frame base_scores =
     (let after_color =
            (if use_color_analysis det then
               (case boost_score base_scores ''fire'' (analyze_fire_colors frame * (3 / 10)) of
                  Inl e \<Rightarrow> Inl base_scores
                | Inr s1 \<Rightarrow>
                    (case boost_score s1 ''smoke'' (analyze_smoke_colors frame * (3 / 10)) of
                       Inl e \<Rightarrow> Inl s1
                     | Inr s2 \<Rightarrow> Inr s2))
             else Inr base_scores)
      in case after_color of
           Inl partial \<Rightarrow> partial
         | Inr s2 \<Rightarrow>
             (let after_motion =
                    (if use_motion_analysis det \<and> length (detection_history det) > 0 then
                       (case boost_score s2 ''accident''
                               (analyze_motion_patterns (detection_history det) * (2 / 10)) of
                          Inl e \<Rightarrow> Inl s2
                        | Inr s3 \<Rightarrow> Inr s3)
                     else Inr s2)
              in case after_motion of
                   Inl partial \<Rightarrow> partial
                 | Inr s3 \<Rightarrow> normalize_scores s3))"

text \<open>
  A score map over the eight emergency classes, as \<open>detect_emergencies\<close> builds it: a
  dict with exactly the eight class names as keys, whose scores are confidences: none of
  them is negative (the output of a softmax layer, or the mock's values clamped to [0, 1]).
\<close>

definition class_score_map :: "scores \<Rightarrow> bool" where
  "class_score_map d = (distinct (map fst d) \<and> set (map fst d) = set emergency_classes)"

definition no_negative :: "scores \<Rightarrow> bool" where
  "no_negative d = list_all (\<lambda>v. 0 \<le> v) (map snd d)"

definition confidence_map :: "scores \<Rightarrow> bool" where
  "confidence_map d = (class_score_map d \<and> no_negative d)"

definition some_positive :: "scores \<Rightarrow> bool" where
  "some_positive d = list_ex (\<lambda>v. 0 < v) (map snd d)"

text \<open>
  The base probabilities of the mock model, a detector with both analyses switched on and
  an empty history, and a frame of 100 pixels, 5 of them fire-coloured.
\<close>

definition mock_base_scores :: scores where
  "mock_base_scores =
     [(''normal'', 85 / 100), (''fire'', 2 / 100), (''smoke'', 3 / 100),
      (''accident'', 4 / 100), (''medical_emergency'', 3 / 100),
      (''structural_damage'', 1 / 100), (''flood'', 1 / 100), (''explosion'', 1 / 100)]"

definition fresh_detector :: emergency_detector where
  "fresh_detector =
     \<lparr>use_color_analysis = True, use_motion_analysis = True, detection_history = []\<rparr>"

definition sample_frame :: frame_stats where
  "sample_frame = \<lparr>fire_pixels = 5, smoke_pixels = 0, total_pixels = 100\<rparr>"

section \<open>Strings, slices and item assignment\<close>

text \<open>\<open>sub in s\<close> on strings: \<open>sub\<close> occurs in \<open>s\<close> as a contiguous piece.\<close>

fun starts_with :: "string \<Rightarrow> string \<Rightarrow> bool" where
  "starts_with [] s = True"
| "starts_with (c # cs) [] = False"
| "starts_with (c # cs) (d # ds) = (c = d \<and> starts_with cs ds)"

fun contains :: "string \<Rightarrow> string \<Rightarrow> bool" where
  "contains sub [] = (sub = [])"
| "contains sub (c # cs) = (starts_with sub (c # cs) \<or> contains sub cs)"

text \<open>
  \<open>s.split(sep)\<close> for a separator of one character: one piece more than there are
  separators, empty pieces included.
\<close>

fun split_on :: "char \<Rightarrow> string \<Rightarrow> string list" where
  "split_on sep [] = [[]]"
| "split_on sep (c # cs) =
     (if c = sep then [] # split_on sep cs
      else (case split_on sep cs of
              [] \<Rightarrow> [[c]]
            | piece # pieces \<Rightarrow> (c # piece) # pieces))"

text \<open>\<open>xs[i]\<close> for an index that is not negative: IndexError past the end.\<close>

definition py_index :: "'a list \<Rightarrow> nat \<Rightarrow> py_error + 'a" where
  "py_index xs i = (if i < length xs then Inr (xs ! i) else Inl IndexError)"

text \<open>
  \<open>xs[start:]\<close>: a negative start counts from the end, and a start outside the list is
  clipped to it.
\<close>

definition py_slice_from :: "'a list \<Rightarrow> int \<Rightarrow> 'a list" where
  "py_slice_from xs start =
     (let n = int (length xs);
          s = (if start < 0 then max 0 (n + start) else min start n)
      in drop (nat s) xs)"

text \<open>\<open>v[k] = x\<close> with a string key: only a dict takes it.\<close>

definition py_setitem :: "pyval \<Rightarrow> string \<Rightarrow> pyval \<Rightarrow> py_error + pyval" where
  "py_setitem v k x =
     (case v of PDict kvs \<Rightarrow> Inr (PDict (AList.update k x kvs)) | _ \<Rightarrow> Inl TypeError)"

text \<open>
  \<open>k in v\<close> for a string \<open>k\<close>: a key of a dict, a piece of a string, an element of a
  list; the other values are not iterable.
\<close>

definition py_contains :: "string \<Rightarrow> pyval \<Rightarrow> py_error + bool" where
  "py_contains k v =
     (case v of
        PDict kvs \<Rightarrow> Inr (map_of kvs k \<noteq> None)
      | PStr s \<Rightarrow> Inr (contains k s)
      | PList xs \<Rightarrow> Inr (PStr k \<in> set xs)
      | _ \<Rightarrow> Inl TypeError)"

section \<open>API Server: the bus subscriber and the alert route (api\_server.py)\<close>

text \<open>
  The process-wide state the subscriber writes: the latest status of each grid, the alert
  ring and the health ring, both oldest first.
\<close>

record api_state =
  grid_states :: "(string \<times> pyval) list"
  alert_history :: "pyval list"
  health_history :: "pyval list"

definition initial_api_state :: api_state where
  "initial_api_state = \<lparr>grid_states = [], alert_history = [], health_history = []\<rparr>"

text \<open>
  A bus message as the callback sees it: the topic, the value
  \<open>json.loads(message.payload.decode())\<close> yields (\<open>None\<close> when decoding or parsing
  raises), and the reading of \<open>datetime.utcnow().isoformat()\<close> at the time of the call.
\<close>

record bus_message =
  bm_topic :: string
  bm_payload :: "pyval option"
  bm_now :: string

text \<open>\<open>ring.append(x)\<close> followed by \<open>if len(ring) > bound: ring.pop(0)\<close>.\<close>

definition ring_append :: "nat \<Rightarrow> 'a list \<Rightarrow> 'a \<Rightarrow> 'a list" where
  "ring_append bound ring x =
     (let ring' = ring @ [x] in if length ring' > bound then tl ring' else ring')"

text \<open>
  \<open>on_mqtt_message\<close>: the branches in the order of the source; every exception is caught
  and leaves the state as it is at that point, which in each branch is the state before
  the call.
\<close>

definition on_mqtt_message :: "api_state \<Rightarrow> bus_message \<Rightarrow> api_state" where
  "on_mqtt_message st message =
     (case bm_payload message of
        None \<Rightarrow> st
      | Some payload \<Rightarrow>
          (let topic = bm_topic message in
           if contains ''status'' topic then
             (case py_index (split_on CHR ''/'' topic) 2 of
                Inl e \<Rightarrow> st
              | Inr grid_id \<Rightarrow>
                  st\<lparr>grid_states := AList.update grid_id payload (grid_states st)\<rparr>)
           else if contains ''alerts'' topic then
             (case py_setitem payload ''received_at'' (PStr (bm_now message)) of
                Inl e \<Rightarrow> st
              | Inr stamped \<Rightarrow>
                  st\<lparr>alert_history := ring_append 1000 (alert_history st) stamped\<rparr>)
           else if contains ''health'' topic then
             (case py_index (split_on CHR ''/'' topic) 2 of
                Inl e \<Rightarrow> st
              | Inr grid_id \<Rightarrow>
                  (case py_setitem payload ''grid_id'' (PStr grid_id) of
                     Inl e \<Rightarrow> st
                   | Inr tagged \<Rightarrow>
                       st\<lparr>health_history := ring_append 500 (health_history st) tagged\<rparr>))
           else st))"

text \<open>The subscriber handling a sequence of messages, first to last.\<close>

definition handle_messages :: "api_state \<Rightarrow> bus_message list \<Rightarrow> api_state" where
  "handle_messages st messages = foldl on_mqtt_message st messages"

text \<open>
  The alert payload a message delivers to the ring, if it delivers one: the topic names
  alerts and not status, and the payload is a JSON object, which is stamped with the
  arrival time. Likewise for a health payload, tagged with the grid id.
\<close>

definition delivered_alert :: "bus_message \<Rightarrow> pyval option" where
  "delivered_alert message =
     (case bm_payload message of
        Some (PDict kvs) \<Rightarrow>
          (if \<not> contains ''status'' (bm_topic message) \<and> contains ''alerts'' (bm_topic message)
           then Some (PDict (AList.update ''received_at'' (PStr (bm_now message)) kvs))
           else None)
      | _ \<Rightarrow> None)"

definition delivered_health :: "bus_message \<Rightarrow> pyval option" where
  "delivered_health message =
     (case bm_payload message of
        Some (PDict kvs) \<Rightarrow>
          (if \<not> contains ''status'' (bm_topic message)
              \<and> \<not> contains ''alerts'' (bm_topic message)
              \<and> contains ''health'' (bm_topic message)
           then (case py_index (split_on CHR ''/'' (bm_topic message)) 2 of
                   Inl e \<Rightarrow> None
                 | Inr grid_id \<Rightarrow> Some (PDict (AList.update ''grid_id'' (PStr grid_id) kvs)))
           else None)
      | _ \<Rightarrow> None)"

definition delivered_alerts :: "bus_message list \<Rightarrow> pyval list" where
  "delivered_alerts messages = List.map_filter delivered_alert messages"

definition delivered_healths :: "bus_message list \<Rightarrow> pyval list" where
  "delivered_healths messages = List.map_filter delivered_health messages"

text \<open>An alert message and a health message of grid G01, numbered.\<close>

definition alert_message :: "nat \<Rightarrow> bus_message" where
  "alert_message i =
     \<lparr>bm_topic = ''dhsiled/grids/G01/alerts'',
      bm_payload = Some (PDict [(''people_count'', PNum (real i))]),
      bm_now = ''2024-01-01T00:00:00''\<rparr>"

definition health_message :: "nat \<Rightarrow> bus_message" where
  "health_message i =
     \<lparr>bm_topic = ''dhsiled/grids/G01/health'',
      bm_payload = Some (PDict [(''uptime'', PNum (real i))]),
      bm_now = ''2024-01-01T00:00:00''\<rparr>"

definition sample_traffic :: "bus_message list" where
  "sample_traffic = map alert_message [0..<1500] @ map health_message [0..<600]"

text \<open>
  \<open>a.get('severity') == severity\<close> for an entry of the ring: the method exists on a
  dict only, and a string equals the value when the value is that string.
\<close>

definition severity_is :: "string \<Rightarrow> pyval \<Rightarrow> py_error + bool" where
  "severity_is severity a =
     ebind (py_get a ''severity'' PNone) (\<lambda>v. Inr (v = PStr severity))"

text \<open>The list comprehension \<open>[a for a in alerts if a.get('severity') == severity]\<close>.\<close>

fun filter_severity :: "string \<Rightarrow> pyval list \<Rightarrow> py_error + pyval list" where
  "filter_severity severity [] = Inr []"
| "filter_severity severity (a # rest) =
     ebind (severity_is severity a) (\<lambda>keep.
     ebind (filter_severity severity rest) (\<lambda>kept.
     Inr (if keep then a # kept else kept)))"

record alerts_response =
  resp_success :: bool
  resp_count :: nat
  resp_alerts :: "pyval list"

text \<open>
  \<open>get_alerts\<close>: \<open>limit\<close> is the integer the query parameter parses to (absent: 50),
  \<open>severity\<close> the query parameter as given (absent: \<open>None\<close>). An exception leaves the
  handler and becomes the server's error response.
\<close>

definition get_alerts ::
  "api_state \<Rightarrow> int option \<Rightarrow> string option \<Rightarrow> py_error + alerts_response" where
  "get_alerts st limit_arg severity_arg =
     (let limit = (case limit_arg of None \<Rightarrow> 50 | Some l \<Rightarrow> l);
          alerts = py_slice_from (alert_history st) (- limit)
      in ebind
           (case severity_arg of
              None \<Rightarrow> Inr alerts
            | Some severity \<Rightarrow>
                if severity \<noteq> [] then filter_severity severity alerts else Inr alerts)
           (\<lambda>alerts'.
              Inr \<lparr>resp_success = True, resp_count = length alerts',
                   resp_alerts = rev alerts'\<rparr>))"

text \<open>
  The response the description of the route promises: the alerts of the given severity
  among the last \<open>L\<close> entries of the ring, newest first.
\<close>

definition has_severity :: "string \<Rightarrow> pyval \<Rightarrow> bool" where
  "has_severity severity a =
     (case a of PDict kvs \<Rightarrow> map_of kvs ''severity'' = Some (PStr severity) | _ \<Rightarrow> False)"

definition promised_alerts :: "pyval list \<Rightarrow> nat \<Rightarrow> string \<Rightarrow> pyval list" where
  "promised_alerts ring L severity = rev (filter (has_severity severity) (last_n L ring))"

definition promised_response :: "pyval list \<Rightarrow> nat \<Rightarrow> string \<Rightarrow> alerts_response" where
  "promised_response ring L severity =
     \<lparr>resp_success = True, resp_count = length (promised_alerts ring L severity),
      resp_alerts = promised_alerts ring L severity\<rparr>"

text \<open>Every entry of the ring is a dict: the subscriber appends nothing else.\<close>

definition ring_of_dicts :: "pyval list \<Rightarrow> bool" where
  "ring_of_dicts ring = list_all is_dict ring"

text \<open>A ring of three critical alerts followed by two low ones.\<close>

definition alert_of :: "string \<Rightarrow> string \<Rightarrow> pyval" where
  "alert_of ident severity = PDict [(''id'', PStr ident), (''severity'', PStr severity)]"

definition sample_ring :: api_state where
  "sample_ring =
     \<lparr>grid_states = [],
      alert_history = [alert_of ''A1'' ''critical'', alert_of ''A2'' ''critical'',
                       alert_of ''A3'' ''critical'', alert_of ''A4'' ''low'',
                       alert_of ''A5'' ''low''],
      health_history = []\<rparr>"

section \<open>Configuration (config.py)\<close>

text \<open>
  The loop of \<open>Config.get\<close>: \<open>value = value[k]\<close> for each key of the path.
\<close>

fun get_path :: "pyval \<Rightarrow> string list \<Rightarrow> py_error + pyval" where
  "get_path v [] = Inr v"
| "get_path v (k # ks) = ebind (py_getitem v k) (\<lambda>v'. get_path v' ks)"

text \<open>
  \<open>Config.get(key, default)\<close>: KeyError and TypeError, the only exceptions the loop can
  raise, give the default.
\<close>

definition config_get :: "pyval \<Rightarrow> string \<Rightarrow> pyval \<Rightarrow> pyval" where
  "config_get config_data key dflt =
     (case get_path config_data (split_on CHR ''.'' key) of
        Inl e \<Rightarrow> dflt
      | Inr v \<Rightarrow> v)"

text \<open>
  \<open>Config.set\<close>, from the document downwards: for each key but the last, create an
  empty dict if the key is not there and step into the key's value; assign at the last
  key. The source mutates the nested dicts in place; here each level returns its updated
  value and the parent stores it back under the same key. An exception leaves \<open>set\<close>
  (there is no handler); the dicts created before it are not part of the result here.
\<close>

fun set_path :: "pyval \<Rightarrow> string list \<Rightarrow> pyval \<Rightarrow> py_error + pyval" where
  "set_path config [] v = Inl IndexError"
| "set_path config [k] v = py_setitem config k v"
| "set_path config (k # k' # ks) v =
     ebind (py_contains k config) (\<lambda>present.
     ebind (if present then Inr config else py_setitem config k (PDict [])) (\<lambda>config1.
     ebind (py_getitem config1 k) (\<lambda>child.
     ebind (set_path child (k' # ks) v) (\<lambda>child'.
     py_setitem config1 k child'))))"

definition config_set :: "pyval \<Rightarrow> string \<Rightarrow> pyval \<Rightarrow> py_error + pyval" where
  "config_set config_data key v = set_path config_data (split_on CHR ''.'' key) v"

text \<open>
  A document has a path when every key of the path is found in turn, each in a dict.
\<close>

fun has_path :: "pyval \<Rightarrow> string list \<Rightarrow> bool" where
  "has_path v [] = True"
| "has_path (PDict kvs) (k # ks) =
     (case map_of kvs k of None \<Rightarrow> False | Some v' \<Rightarrow> has_path v' ks)"
| "has_path v (k # ks) = False"

text \<open>
  A path can be set in a document when the document is a dict and every value the path
  meets before its last key is a dict as well; from the first missing key on, nothing
  stands in the way.
\<close>

fun settable :: "pyval \<Rightarrow> string list \<Rightarrow> bool" where
  "settable v [] = False"
| "settable (PDict kvs) [k] = True"
| "settable (PDict kvs) (k # k' # ks) =
     (case map_of kvs k of None \<Rightarrow> True | Some v' \<Rightarrow> settable v' (k' # ks))"
| "settable v (k # ks) = False"

text \<open>\<open>_get_default_config\<close>.\<close>

definition default_config :: pyval where
  "default_config =
     PDict
      [(''grid'', PDict
          [(''id'', PStr ''G01''), (''zone_type'', PStr ''stand''), (''area_sqm'', PNum 750),
           (''capacity'', PNum 200),
           (''location'', PDict
              [(''section'', PStr ''North Stand''), (''level'', PNum 1),
               (''position'', PDict [(''x'', PNum (- 75)), (''y'', PNum 5),
                                     (''z'', PNum (- 60))])])]),
       (''density_thresholds'', PDict
          [(''normal'', PNum 60), (''moderate'', PNum 100), (''high'', PNum 150),
           (''critical'', PNum 200)]),
       (''camera'', PDict
          [(''device_index'', PNum 0), (''width'', PNum 1920), (''height'', PNum 1080),
           (''fps'', PNum 30), (''rotation'', PNum 0)]),
       (''models'', PDict
          [(''people_counter'', PStr ''models/yolov8n.pt''),
           (''behavior_analyzer'', PStr ''models/behavior_lstm.h5''),
           (''emergency_detector'', PStr ''models/emergency_cnn.h5''),
           (''confidence_threshold'', PNum (1 / 2)), (''sequence_length'', PNum 16)]),
       (''mqtt'', PDict
          [(''host'', PStr ''localhost''), (''port'', PNum 1883), (''username'', PNone),
           (''password'', PNone), (''ssl'', PBool False), (''keepalive'', PNum 60),
           (''qos'', PNum 1)]),
       (''processing'', PDict
          [(''frame_skip'', PNum 0), (''enable_people_counting'', PBool True),
           (''enable_behavior_analysis'', PBool True),
           (''enable_emergency_detection'', PBool True)]),
       (''storage'', PDict
          [(''video_buffer_path'', PStr ''data/video_buffer''),
           (''logs_path'', PStr ''data/logs''), (''analytics_path'', PStr ''data/analytics''),
           (''retention_hours'', PNum 24)]),
       (''monitoring'', PDict
          [(''interval'', PNum 30),
           (''thresholds'', PDict
              [(''cpu_temp'', PNum 80), (''cpu_usage'', PNum 90), (''memory_usage'', PNum 95),
               (''disk_usage'', PNum 90)])]),
       (''logging'', PDict [(''level'', PStr ''INFO''), (''console_output'', PBool True)]),
       (''debug'', PDict
          [(''enable_mock_models'', PBool False), (''save_debug_images'', PBool False),
           (''show_preview'', PBool False)])]"

section \<open>Verified properties\<close>

subsection \<open>Density buckets\<close>

lemma density_level_of_default:
  "density_level_of default_thresholds 750 n =
     Some (if n \<le> 60 then ''low'' else if n \<le> 100 then ''moderate''
           else if n \<le> 150 then ''high'' else ''critical'')"
  by (simp add: density_level_of_def calculate_crowd_density_def default_thresholds_def Let_def)

lemma threshold_status_default:
  "get_threshold_status default_thresholds n =
     (if n \<le> 60 then ''normal'' else if n \<le> 100 then ''moderate''
      else if n \<le> 150 then ''high'' else ''critical'')"
  by (simp add: get_threshold_status_def default_thresholds_def)

text \<open>
  Claim C4. With the default thresholds 60/100/150/200 (and the default area of 750 square
  metres) the counts 0, 60, 61, 100, 101, 150, 151, 300 are mapped to the levels low, low,
  moderate, moderate, high, high, critical, critical and to the threshold statuses normal,
  normal, moderate, moderate, high, high, critical, critical; and whenever \<open>a \<le> b\<close> the
  level and the threshold status of \<open>a\<close> are at most those of \<open>b\<close> in the order
  low < moderate < high < critical.
\<close>

theorem density_buckets_default:
  "map (density_level_of default_thresholds 750) [0, 60, 61, 100, 101, 150, 151, 300] =
     map Some [''low'', ''low'', ''moderate'', ''moderate'', ''high'', ''high'',
               ''critical'', ''critical'']
   \<and> map (get_threshold_status default_thresholds) [0, 60, 61, 100, 101, 150, 151, 300] =
     [''normal'', ''normal'', ''moderate'', ''moderate'', ''high'', ''high'',
      ''critical'', ''critical'']
   \<and> (\<forall>a b. a \<le> b \<longrightarrow>
        level_rank_opt (density_level_of default_thresholds 750 a)
          \<le> level_rank_opt (density_level_of default_thresholds 750 b)
        \<and> level_rank (get_threshold_status default_thresholds a)
          \<le> level_rank (get_threshold_status default_thresholds b))"
proof (intro conjI allI impI)
  show "map (density_level_of default_thresholds 750) [0, 60, 61, 100, 101, 150, 151, 300] =
     map Some [''low'', ''low'', ''moderate'', ''moderate'', ''high'', ''high'',
               ''critical'', ''critical'']"
    by (simp add: density_level_of_default)
  show "map (get_threshold_status default_thresholds) [0, 60, 61, 100, 101, 150, 151, 300] =
     [''normal'', ''normal'', ''moderate'', ''moderate'', ''high'', ''high'',
      ''critical'', ''critical'']"
    by (simp add: threshold_status_default)
next
  fix a b :: int
  assume ab: "a \<le> b"
  show "level_rank_opt (density_level_of default_thresholds 750 a)
          \<le> level_rank_opt (density_level_of default_thresholds 750 b)"
    using ab by (simp add: density_level_of_default level_rank_opt_def level_rank_def)
  show "level_rank (get_threshold_status default_thresholds a)
          \<le> level_rank (get_threshold_status default_thresholds b)"
    using ab by (simp add: threshold_status_default level_rank_def)
qed

theorem density_buckets_default_witness:
  "(61::int) \<le> 151
   \<and> level_rank_opt (density_level_of default_thresholds 750 61)
        \<le> level_rank_opt (density_level_of default_thresholds 750 151)
   \<and> level_rank (get_threshold_status default_thresholds 61)
        \<le> level_rank (get_threshold_status default_thresholds 151)"
proof -
  have h: "(61::int) \<le> 151" by simp
  show ?thesis using h density_buckets_default by blast
qed

subsection \<open>Health score\<close>













subsection \<open>Health loop\<close>

lemma field_is_numberD:
  "field_is is_number v k \<Longrightarrow> \<exists>x. py_getitem v k = Inr (PNum x)"
  by (cases "py_getitem v k") (auto simp: field_is_def is_number_def split: pyval.splits)

lemma field_is_dictD:
  "field_is is_dict v k \<Longrightarrow> \<exists>kvs. py_getitem v k = Inr (PDict kvs)"
  by (cases "py_getitem v k") (auto simp: field_is_def is_dict_def split: pyval.splits)

text \<open>
  Claim C2 says that the health loop publishes every well-formed health record. The code
  does the opposite: \<open>memory_usage\<close> is a dict, the comparison
  \<open>health_data['memory_usage'] > 90\<close> raises TypeError, and the iteration ends in the
  \<open>except\<close> branch before the publish call, for every record \<open>get_health_status\<close> can
  return.
\<close>

theorem health_loop_never_publishes:
  "well_formed_health health_data \<Longrightarrow>
     monitor_device_health_iteration health_data = ErrorLogged TypeError"
proof -
  assume wf: "well_formed_health health_data"
  from wf obtain t where t: "py_getitem health_data ''cpu_temperature'' = Inr (PNum t)"
    unfolding well_formed_health_def by (blast dest: field_is_numberD)
  from wf obtain kvs where m: "py_getitem health_data ''memory_usage'' = Inr (PDict kvs)"
    unfolding well_formed_health_def by (blast dest: field_is_dictD)
  have "health_checks health_data = Inl TypeError"
    by (simp add: health_checks_def t m ebind_def py_gt_def py_num_def Let_def)
  then show ?thesis
    by (simp add: monitor_device_health_iteration_def)
qed

theorem health_loop_never_publishes_witness:
  "well_formed_health sample_health
   \<and> monitor_device_health_iteration sample_health = ErrorLogged TypeError"
proof -
  have wf: "well_formed_health sample_health"
    by (simp add: well_formed_health_def field_is_def sample_health_def py_getitem_def
        is_number_def is_dict_def)
  show ?thesis using wf health_loop_never_publishes [OF wf] by simp
qed

subsection \<open>Messaging Client\<close>

lemma queue_message_queue:
  "message_queue (queue_message st m now) =
     (if length (message_queue st) \<ge> max_queue_size then tl (message_queue st)
      else message_queue st) @ [\<lparr>q_message = m, q_timestamp = now\<rparr>]"
  by (simp add: queue_message_def add_log_def Let_def)

text \<open>
  Claim C1 says that a message handed to \<open>publish\<close> while the client is disconnected is
  enqueued and never silently dropped. The code drops it: when \<open>self.connected\<close> is false,
  \<open>publish\<close> returns without sending, queueing or logging, and the state of the client is
  the one before the call.
\<close>

theorem publish_disconnected_drops:
  "\<not> connected_flag st \<Longrightarrow> publish st topic payload qos retain reply now = st"
  by (simp add: publish_def Let_def)

theorem publish_disconnected_drops_witness:
  "\<not> connected_flag offline_client
   \<and> publish offline_client ''dhsiled/grids/G01/alerts'' ''{}'' None False (ReturnCode 0) 0
       = offline_client
   \<and> message_queue offline_client = [] \<and> delivered offline_client = []"
proof -
  have h: "\<not> connected_flag offline_client"
    by (simp add: offline_client_def)
  show ?thesis
    using h publish_disconnected_drops [OF h, of "''dhsiled/grids/G01/alerts''" "''{}''" None
        False "ReturnCode 0" 0]
    by (simp add: offline_client_def)
qed

text \<open>
  What does hold of \<open>publish\<close> and the queue: a connected client whose broker accepts the
  message delivers it and queues nothing; a failed send (a return code other than 0, or an
  exception) appends the message to the queue; and the queue never exceeds 1000 entries,
  the oldest entry making room for the new one.
\<close>

lemma publish_connected_ok:
  "connected_flag st \<Longrightarrow> client_present st \<Longrightarrow> mqtt_available st \<Longrightarrow>
   publish st topic payload (Some q) retain (ReturnCode 0) now =
     st\<lparr>delivered := delivered st @
           [\<lparr>msg_topic = topic, msg_payload = payload, msg_qos = q, msg_retain = retain\<rparr>]\<rparr>"
  by (simp add: publish_def Let_def)

lemma publish_failed_queues:
  "connected_flag st \<Longrightarrow> client_present st \<Longrightarrow> reply = Raises \<or> (\<exists>rc. reply = ReturnCode rc \<and> rc \<noteq> 0) \<Longrightarrow>
   message_queue (publish st topic payload (Some q) retain reply now) =
     (if length (message_queue st) \<ge> max_queue_size then tl (message_queue st)
      else message_queue st)
     @ [\<lparr>q_message = \<lparr>msg_topic = topic, msg_payload = payload, msg_qos = q,
                        msg_retain = retain\<rparr>, q_timestamp = now\<rparr>]"
  by (auto simp: publish_def Let_def queue_message_queue add_log_def)

lemma queue_message_bounded:
  "length (message_queue st) \<le> max_queue_size \<Longrightarrow>
   length (message_queue (queue_message st m now)) \<le> max_queue_size"
  by (auto simp: queue_message_queue max_queue_size_def)

subsection \<open>Temporal smoothing\<close>

lemma class_scores_length:
  "class_scores history b = Inr ss \<Longrightarrow> length ss = length history"
  by (induction history arbitrary: ss) (auto simp: ebind_def split: option.splits sum.splits)

lemma smooth_classes_length_mismatch:
  assumes "length history = 5" and "length weights = 4"
  shows "\<exists>e. smooth_classes history weights (b # bs) = Inl e"
proof (cases "class_scores history b")
  case (Inl e)
  then show ?thesis by (simp add: ebind_def)
next
  case (Inr ss)
  then have "length ss = 5"
    using assms class_scores_length by fastforce
  then have "np_average ss (take (length ss) weights) = Inl TypeError"
    using assms by (simp add: np_average_def)
  with Inr show ?thesis by (simp add: ebind_def)
qed

lemma deque_append_full:
  "4 \<le> length h \<Longrightarrow> length h \<le> 5 \<Longrightarrow> length (deque_append history_maxlen h x) = 5"
  by (auto simp: deque_append_def history_maxlen_def)

lemma smoothing_raises_at_five:
  assumes "4 \<le> length h" and "length h \<le> 5"
  shows "\<exists>e. snd (apply_temporal_smoothing h cur) = Inl e"
proof -
  let ?h = "deque_append history_maxlen h cur"
  let ?w0 = "take (length ?h) smoothing_weights"
  have len: "length ?h = 5"
    using assms by (rule deque_append_full)
  have "length (map (\<lambda>w. w / sum_list ?w0) ?w0) = 4"
    using len by (simp add: smoothing_weights_def)
  then obtain e where
    "smooth_classes ?h (map (\<lambda>w. w / sum_list ?w0) ?w0) behavior_classes = Inl e"
    using smooth_classes_length_mismatch [OF len] unfolding behavior_classes_def by blast
  then show ?thesis
    by (simp add: apply_temporal_smoothing_def Let_def)
qed

lemma smoothing_two_entries:
  "snd (apply_temporal_smoothing [uniform_scores 0] panic_scores) =
     Inr (map (\<lambda>b. (b, if b = ''panic'' then 2 / 3 else 0)) behavior_classes)"
  by (simp add: apply_temporal_smoothing_def deque_append_def history_maxlen_def
      smoothing_weights_def uniform_scores_def panic_scores_def behavior_classes_def
      np_average_def ebind_def Let_def)

text \<open>
  Claim C3 says that smoothing returns a weighted average for every history length from 1
  through 5. The code has four weights for a deque of five: once the history holds five
  vectors (from the fifth call on, and in every call after it, since the deque stays full),
  the score list has five entries and the weight list four, \<open>np.average\<close> raises, and
  \<open>analyze_sequence\<close> answers with the all-normal fallback whatever the model predicted.
\<close>

theorem smoothing_fails_at_full_history:
  assumes "4 \<le> length h" and "length h \<le> 5"
  shows "(\<exists>e. snd (apply_temporal_smoothing h cur) = Inl e)
         \<and> snd (analyze_sequence h (Inr cur)) = fallback_scores
         \<and> length (fst (analyze_sequence h (Inr cur))) = 5"
proof -
  obtain e where e: "snd (apply_temporal_smoothing h cur) = Inl e"
    using smoothing_raises_at_five [OF assms] by blast
  have f: "fst (apply_temporal_smoothing h cur) = deque_append history_maxlen h cur"
    by (simp add: apply_temporal_smoothing_def Let_def)
  obtain h' r where hr: "apply_temporal_smoothing h cur = (h', r)"
    by (cases "apply_temporal_smoothing h cur")
  with e f have r: "r = Inl e" and h': "h' = deque_append history_maxlen h cur"
    by simp_all
  have "analyze_sequence h (Inr cur) = (h', fallback_scores)"
    by (simp add: analyze_sequence_def hr r)
  then show ?thesis
    using e h' deque_append_full [OF assms] by auto
qed

theorem smoothing_fails_at_full_history_witness:
  "4 \<le> length (replicate 4 (uniform_scores 0))
   \<and> length (replicate 4 (uniform_scores 0)) \<le> 5
   \<and> snd (analyze_sequence (replicate 4 (uniform_scores 0)) (Inr panic_scores))
       = fallback_scores
   \<and> map_of fallback_scores ''panic'' = Some 0
   \<and> map_of panic_scores ''panic'' = Some 1"
proof -
  have a: "4 \<le> length (replicate 4 (uniform_scores 0))" by simp
  have b: "length (replicate 4 (uniform_scores 0)) \<le> 5" by simp
  show ?thesis
    using a b smoothing_fails_at_full_history [OF a b, of panic_scores]
    by (simp add: fallback_scores_def panic_scores_def behavior_classes_def)
qed

subsection \<open>Alert cooldown\<close>

lemma behavior_loop_density_pair:
  "density_alerts status (fst (behavior_alert_loop g now bas (alerts, cd))) =
     density_alerts status alerts"
  by (induction bas arbitrary: alerts cd) (auto simp: density_alerts_def Let_def)

lemma behavior_loop_key_pair:
  "density_key k \<Longrightarrow> snd (behavior_alert_loop g now bas (alerts, cd)) k = cd k"
  by (induction bas arbitrary: alerts cd)
     (auto simp: set_alert_cooldown_def Let_def density_key_def)

lemma behavior_loop_density:
  "density_alerts status (fst (behavior_alert_loop g now bas acc)) =
     density_alerts status (fst acc)"
  by (cases acc) (simp add: behavior_loop_density_pair)

lemma behavior_loop_key:
  "density_key k \<Longrightarrow> snd (behavior_alert_loop g now bas acc) k = snd acc k"
  by (cases acc) (simp add: behavior_loop_key_pair)

lemma emergency_step_density:
  "density_alerts status (fst (emergency_alert_step g now es acc)) =
     density_alerts status (fst acc)"
  by (simp add: emergency_alert_step_def density_alerts_def Let_def)

lemma emergency_step_key:
  "density_key k \<Longrightarrow> snd (emergency_alert_step g now es acc) k = snd acc k"
  by (auto simp: emergency_alert_step_def set_alert_cooldown_def Let_def density_key_def)

lemma density_step_alerts:
  "density_alerts s (fst (density_alert_step th g now n cd)) =
     (if density_alert_due th cd now n s
      then [\<lparr>alert_type = ''crowd_density'', alert_severity = s,
                        alert_grid_id = g, alert_timestamp = now,
                        alert_detail = DensityDetail n (threshold_of th s)\<rparr>]
      else [])"
  by (auto simp: density_alert_step_def Let_def density_alert_due_def density_alerts_def)

lemma density_step_key:
  "snd (density_alert_step th g now n cd) (''density_'' @ s) =
     (if density_alert_due th cd now n s then Some (now + 60) else cd (''density_'' @ s))"
  by (auto simp: density_alert_step_def Let_def density_alert_due_def set_alert_cooldown_def)

lemma density_key_density: "density_key (''density_'' @ s)"
  by (simp add: density_key_def)

lemma generate_alerts_density:
  "density_alerts s (fst (generate_alerts th g cd now n bas es)) =
     (if density_alert_due th cd now n s
      then [\<lparr>alert_type = ''crowd_density'', alert_severity = s,
                        alert_grid_id = g, alert_timestamp = now,
                        alert_detail = DensityDetail n (threshold_of th s)\<rparr>]
      else [])"
  unfolding generate_alerts_def
  by (simp only: emergency_step_density behavior_loop_density density_step_alerts)

lemma generate_alerts_key:
  "snd (generate_alerts th g cd now n bas es) (''density_'' @ s) =
     (if density_alert_due th cd now n s then Some (now + 60) else cd (''density_'' @ s))"
  unfolding generate_alerts_def
  by (simp only: emergency_step_key [OF density_key_density]
      behavior_loop_key [OF density_key_density] density_step_key)

lemma quiet_run:
  assumes "cd (''density_'' @ s) = Some u" and "\<forall>ev \<in> set evs. ev_time ev < u"
  shows "(\<forall>out \<in> set (fst (run_evaluations th g cd evs)). density_alerts s out = [])
         \<and> snd (run_evaluations th g cd evs) (''density_'' @ s) = Some u"
  using assms
proof (induction evs arbitrary: cd)
  case Nil
  then show ?case by simp
next
  case (Cons ev evs)
  obtain alerts cd' where g: "generate_alerts th g cd (ev_time ev) (ev_people_count ev)
             (ev_behavior_alerts ev) (ev_emergency ev) = (alerts, cd')"
    by (cases "generate_alerts th g cd (ev_time ev) (ev_people_count ev)
             (ev_behavior_alerts ev) (ev_emergency ev)")
  have cool: "is_alert_in_cooldown cd (ev_time ev) (''density_'' @ s)"
    using Cons.prems by (simp add: is_alert_in_cooldown_def)
  then have nd: "\<not> density_alert_due th cd (ev_time ev) (ev_people_count ev) s"
    by (simp add: density_alert_due_def)
  have a: "density_alerts s alerts = []"
    using generate_alerts_density [of s th g cd "ev_time ev" "ev_people_count ev"
        "ev_behavior_alerts ev" "ev_emergency ev"] g nd by simp
  have k: "cd' (''density_'' @ s) = Some u"
    using generate_alerts_key [of th g cd "ev_time ev" "ev_people_count ev"
        "ev_behavior_alerts ev" "ev_emergency ev" s] g nd Cons.prems(1) by simp
  have rest: "\<forall>ev \<in> set evs. ev_time ev < u"
    using Cons.prems(2) by simp
  obtain outs cd'' where r: "run_evaluations th g cd' evs = (outs, cd'')"
    by (cases "run_evaluations th g cd' evs")
  from Cons.IH [of cd', OF k rest] r
  have "\<forall>out \<in> set outs. density_alerts s out = []"
    and "cd'' (''density_'' @ s) = Some u"
    by simp_all
  with a show ?case
    by (simp add: g r)
qed

text \<open>
  Claim C5. Let a crowd-density alert of status \<open>status\<close> (high or critical) fire in an
  evaluation at time \<open>t\<close>, which sets the cooldown of the key \<open>density_<status>\<close> to
  \<open>t + 60\<close>. Then no evaluation at a time strictly below \<open>t + 60\<close> produces a
  crowd-density alert of that status, whatever its people count, behavior alerts and
  emergency status; and after any run of such evaluations, an evaluation at a time
  \<open>t' \<ge> t + 60\<close> whose count has that status produces a new one.
\<close>

theorem alert_cooldown_window:
  assumes status: "status = ''high'' \<or> status = ''critical''"
    and first: "get_threshold_status th n = status"
               "\<not> is_alert_in_cooldown cd t (''density_'' @ status)"
    and early: "\<forall>ev \<in> set evs. ev_time ev < t + 60"
    and late: "t + 60 \<le> t'" "get_threshold_status th n' = status"
  shows "let first = generate_alerts th g cd t n bas es;
             between = run_evaluations th g (snd first) evs;
             after = generate_alerts th g (snd between) t' n' bas' es'
         in density_alerts status (fst first) \<noteq> []
            \<and> (\<forall>out \<in> set (fst between). density_alerts status out = [])
            \<and> density_alerts status (fst after) \<noteq> []"
proof -
  obtain alerts cd1 where g1: "generate_alerts th g cd t n bas es = (alerts, cd1)"
    by (cases "generate_alerts th g cd t n bas es")
  obtain outs cd2 where r: "run_evaluations th g cd1 evs = (outs, cd2)"
    by (cases "run_evaluations th g cd1 evs")
  obtain alerts' cd3 where g2: "generate_alerts th g cd2 t' n' bas' es' = (alerts', cd3)"
    by (cases "generate_alerts th g cd2 t' n' bas' es'")
  have due: "density_alert_due th cd t n status"
    using status first by (simp add: density_alert_due_def)
  have a1: "density_alerts status alerts \<noteq> []"
    using generate_alerts_density [of status th g cd t n bas es] g1 due by simp
  have k1: "cd1 (''density_'' @ status) = Some (t + 60)"
    using generate_alerts_key [of th g cd t n bas es status] g1 due by simp
  from quiet_run [of cd1 status "t + 60" evs th g, OF k1 early] r
  have q: "\<forall>out \<in> set outs. density_alerts status out = []"
    and k2: "cd2 (''density_'' @ status) = Some (t + 60)"
    by simp_all
  have "\<not> is_alert_in_cooldown cd2 t' (''density_'' @ status)"
    using k2 late(1) by (simp add: is_alert_in_cooldown_def)
  then have due2: "density_alert_due th cd2 t' n' status"
    using status late(2) by (simp add: density_alert_due_def)
  have a2: "density_alerts status alerts' \<noteq> []"
    using generate_alerts_density [of status th g cd2 t' n' bas' es'] g2 due2 by simp
  show ?thesis
    using a1 q a2 by (simp add: g1 r g2 Let_def)
qed

theorem alert_cooldown_window_witness:
  "(''critical'' = ''high'' \<or> ''critical'' = ''critical'')
   \<and> get_threshold_status default_thresholds 160 = ''critical''
   \<and> \<not> is_alert_in_cooldown Map.empty 0 (''density_'' @ ''critical'')
   \<and> ev_time (crowded 10 170) < 0 + 60 \<and> ev_time (crowded 59 200) < 0 + 60
   \<and> (0::real) + 60 \<le> 60
   \<and> get_threshold_status default_thresholds 180 = ''critical''
   \<and> (let first = generate_alerts default_thresholds ''G01'' Map.empty 0 160 [] clear_status;
            between = run_evaluations default_thresholds ''G01'' (snd first)
                        [crowded 10 170, crowded 59 200];
            after = generate_alerts default_thresholds ''G01'' (snd between) 60 180 []
                      clear_status
        in density_alerts ''critical'' (fst first) \<noteq> []
           \<and> list_all (\<lambda>out. density_alerts ''critical'' out = []) (fst between)
           \<and> density_alerts ''critical'' (fst after) \<noteq> [])"
proof -
  have h1: "''critical'' = ''high'' \<or> ''critical'' = ''critical''"
    by simp
  have h2: "get_threshold_status default_thresholds 160 = ''critical''"
    by (simp add: get_threshold_status_def default_thresholds_def)
  have h3: "\<not> is_alert_in_cooldown Map.empty 0 (''density_'' @ ''critical'')"
    by (simp add: is_alert_in_cooldown_def)
  have e1: "ev_time (crowded 10 170) < 0 + 60" and e2: "ev_time (crowded 59 200) < 0 + 60"
    by (simp_all add: crowded_def)
  then have h4: "\<forall>ev \<in> set [crowded 10 170, crowded 59 200]. ev_time ev < 0 + 60"
    by simp
  have h5: "(0::real) + 60 \<le> 60"
    by simp
  have h6: "get_threshold_status default_thresholds 180 = ''critical''"
    by (simp add: get_threshold_status_def default_thresholds_def)
  show ?thesis
    using h1 h2 h3 e1 e2 h5 h6
      alert_cooldown_window [OF h1 h2 h3 h4 h5 h6, of "''G01''" "[]" clear_status "[]"
        clear_status]
    unfolding Let_def list_all_iff by blast
qed

subsection \<open>Emergency score normalization\<close>

lemma np_mean_nonneg: "list_all (\<lambda>x. 0 \<le> x) xs \<Longrightarrow> 0 \<le> np_mean xs"
  unfolding np_mean_def
  by (intro divide_nonneg_nonneg sum_list_nonneg) (auto simp: list_all_iff)

lemma np_var_nonneg: "0 \<le> np_var xs"
  unfolding np_var_def by (rule np_mean_nonneg) (simp add: list_all_iff)

lemma variance_loop_nonneg:
  "0 \<le> acc \<Longrightarrow> variance_loop recent cs acc = Inr v \<Longrightarrow> 0 \<le> v"
proof (induction cs arbitrary: acc)
  case Nil
  then show ?case by simp
next
  case (Cons c cs)
  show ?case
  proof (cases "c = ''normal''")
    case True
    with Cons show ?thesis by simp
  next
    case False
    with Cons.prems obtain ss where
      "variance_loop recent cs (if length ss > 1 then acc + np_var ss else acc) = Inr v"
      by (auto simp: ebind_def split: sum.splits)
    moreover have "0 \<le> (if length ss > 1 then acc + np_var ss else acc)"
      using Cons.prems(1) np_var_nonneg [of ss] by simp
    ultimately show ?thesis using Cons.IH by blast
  qed
qed

lemma motion_nonneg: "0 \<le> analyze_motion_patterns h"
  using variance_loop_nonneg [of 0 "last_n 5 h" emergency_classes]
  by (auto simp: analyze_motion_patterns_def split: sum.splits)

lemma fire_nonneg: "0 \<le> analyze_fire_colors f"
  by (simp add: analyze_fire_colors_def)

lemma smoke_nonneg: "0 \<le> analyze_smoke_colors f"
  by (simp add: analyze_smoke_colors_def)

lemma update_keeps_nonneg:
  "list_all (\<lambda>v. 0 \<le> v) (map snd d) \<Longrightarrow> (0::real) \<le> x \<Longrightarrow>
   list_all (\<lambda>v. 0 \<le> v) (map snd (AList.update k x d))"
  by (induction d) auto

lemma update_keeps_positive:
  "list_ex (\<lambda>v. 0 < v) (map snd d) \<Longrightarrow> map_of d k = Some v \<Longrightarrow> (0::real) < v \<longrightarrow> 0 < x \<Longrightarrow>
   list_ex (\<lambda>v. 0 < v) (map snd (AList.update k x d))"
  by (induction d) (auto split: if_splits)

lemma update_keeps_keys:
  "map_of d k = Some v \<Longrightarrow> map fst (AList.update k x d) = map fst d"
  by (induction d) (auto split: if_splits)

lemma map_of_nonneg:
  "list_all (\<lambda>v. 0 \<le> v) (map snd d) \<Longrightarrow> map_of d k = Some v \<Longrightarrow> (0::real) \<le> v"
  by (induction d) (auto split: if_splits)

lemma boost_score_keeps:
  assumes "confidence_map d" and "some_positive d" and "k \<in> set emergency_classes"
    and "0 \<le> b"
  shows "\<exists>d'. boost_score d k b = Inr d' \<and> confidence_map d' \<and> some_positive d'"
proof -
  from assms(1,3) have "k \<in> fst ` set d"
    unfolding confidence_map_def class_score_map_def by simp
  then obtain v where v: "map_of d k = Some v"
    by (metis domD dom_map_of_conv_image_fst)
  have nn: "list_all (\<lambda>v. 0 \<le> v) (map snd d)"
    using assms(1) by (simp add: confidence_map_def no_negative_def)
  have v0: "0 \<le> v"
    using map_of_nonneg [OF nn v] .
  let ?x = "min 1 (v + b)"
  have x0: "0 \<le> ?x" using v0 assms(4) by simp
  have xp: "0 < v \<longrightarrow> 0 < ?x" using assms(4) by simp
  have "confidence_map (AList.update k ?x d)"
    using assms(1) update_keeps_keys [OF v] update_keeps_nonneg [OF nn x0]
    by (simp add: confidence_map_def class_score_map_def no_negative_def)
  moreover have "some_positive (AList.update k ?x d)"
    using assms(2) update_keeps_positive [OF _ v xp]
    by (simp add: some_positive_def)
  ultimately show ?thesis
    by (simp add: boost_score_def v)
qed

lemma sum_list_divide:
  "sum_list (map snd (map (\<lambda>(k, v). (k, v / c)) d)) = sum_list (map snd d) / (c::real)"
  by (induction d) (auto simp: add_divide_distrib)

lemma sum_positive:
  "list_all (\<lambda>v. 0 \<le> v) vs \<Longrightarrow> list_ex (\<lambda>v. 0 < v) vs \<Longrightarrow> (0::real) < sum_list vs"
proof (induction vs)
  case Nil
  then show ?case by simp
next
  case (Cons v vs)
  have "0 \<le> sum_list vs"
    using Cons.prems(1) by (intro sum_list_nonneg) (auto simp: list_all_iff)
  then show ?case
    using Cons by (auto intro: add_pos_nonneg add_nonneg_pos)
qed

lemma normalize_sums_to_one:
  assumes "confidence_map d" and "some_positive d"
  shows "sum_list (map snd (normalize_scores d)) = 1"
proof -
  have pos: "0 < sum_list (map snd d)"
    using assms
    by (intro sum_positive) (simp_all add: confidence_map_def no_negative_def some_positive_def)
  have "normalize_scores d = map (\<lambda>(k, v). (k, v / sum_list (map snd d))) d"
    using pos by (simp add: normalize_scores_def Let_def)
  then have "sum_list (map snd (normalize_scores d)) = sum_list (map snd d) / sum_list (map snd d)"
    by (simp only: sum_list_divide)
  then show ?thesis
    using pos by simp
qed

text \<open>
  Claim C6. For every score map over the eight emergency classes in which at least one
  score is positive, the map \<open>_enhance_detection\<close> returns sums to 1, whatever the
  frame's colour statistics, the detection history and the two analysis switches are.
  Class scores are confidences: the data model puts them in [0, 1], and
  \<open>detect_emergencies\<close>, the only caller, passes the output of a softmax layer or the
  mock's values clamped to [0, 1]; so no score is negative. The arithmetic is exact here,
  so the sum is 1 itself.
\<close>

theorem enhance_detection_sums_to_one:
  assumes "class_score_map base_scores" and "no_negative base_scores"
    and "some_positive base_scores"
  shows "sum_list (map snd (enhance_detection det frame base_scores)) = 1"
proof -
  have conf: "confidence_map base_scores"
    using assms(1,2) by (simp add: confidence_map_def)
  note pos = assms(3)
  have fire: "''fire'' \<in> set emergency_classes" and smoke: "''smoke'' \<in> set emergency_classes"
    and accident: "''accident'' \<in> set emergency_classes"
    by (simp_all add: emergency_classes_def)
  have fb: "0 \<le> analyze_fire_colors frame * (3 / 10)"
    using fire_nonneg [of frame] by simp
  have sb: "0 \<le> analyze_smoke_colors frame * (3 / 10)"
    using smoke_nonneg [of frame] by simp
  have mb: "0 \<le> analyze_motion_patterns (detection_history det) * (2 / 10)"
    using motion_nonneg [of "detection_history det"] by simp
  obtain s2 where s2: "(if use_color_analysis det then
               (case boost_score base_scores ''fire'' (analyze_fire_colors frame * (3 / 10)) of
                  Inl e \<Rightarrow> Inl base_scores
                | Inr s1 \<Rightarrow>
                    (case boost_score s1 ''smoke'' (analyze_smoke_colors frame * (3 / 10)) of
                       Inl e \<Rightarrow> Inl s1
                     | Inr s2 \<Rightarrow> Inr s2))
             else Inr base_scores) = Inr s2" and i2: "confidence_map s2" "some_positive s2"
  proof (cases "use_color_analysis det")
    case True
    obtain s1 where s1: "boost_score base_scores ''fire'' (analyze_fire_colors frame * (3 / 10)) = Inr s1"
      and i1: "confidence_map s1" "some_positive s1"
      using boost_score_keeps [OF conf pos fire fb] by blast
    obtain s2 where "boost_score s1 ''smoke'' (analyze_smoke_colors frame * (3 / 10)) = Inr s2"
      and "confidence_map s2" "some_positive s2"
      using boost_score_keeps [OF i1 smoke sb] by blast
    with s1 True that show ?thesis by (simp only: if_True sum.case)
  next
    case False
    with conf pos that show ?thesis by (simp only: if_False)
  qed
  obtain s3 where s3: "(if use_motion_analysis det \<and> length (detection_history det) > 0 then
                       (case boost_score s2 ''accident''
                               (analyze_motion_patterns (detection_history det) * (2 / 10)) of
                          Inl e \<Rightarrow> Inl s2
                        | Inr s3 \<Rightarrow> Inr s3)
                     else Inr s2) = Inr s3" and i3: "confidence_map s3" "some_positive s3"
  proof (cases "use_motion_analysis det \<and> length (detection_history det) > 0")
    case True
    obtain s3 where "boost_score s2 ''accident''
        (analyze_motion_patterns (detection_history det) * (2 / 10)) = Inr s3"
      and "confidence_map s3" "some_positive s3"
      using boost_score_keeps [OF i2 accident mb] by blast
    with True that show ?thesis by (simp only: if_True sum.case simp_thms)
  next
    case False
    with i2 that show ?thesis by (simp only: if_False simp_thms)
  qed
  have "enhance_detection det frame base_scores = normalize_scores s3"
    unfolding enhance_detection_def Let_def s2 sum.case s3 ..
  then show ?thesis
    using normalize_sums_to_one [OF i3] by simp
qed

theorem enhance_detection_sums_to_one_witness:
  "class_score_map mock_base_scores \<and> no_negative mock_base_scores
   \<and> some_positive mock_base_scores
   \<and> sum_list (map snd (enhance_detection fresh_detector sample_frame mock_base_scores)) = 1"
proof -
  have a: "class_score_map mock_base_scores"
    by (simp add: class_score_map_def mock_base_scores_def emergency_classes_def)
  have n: "no_negative mock_base_scores"
    by (simp add: no_negative_def mock_base_scores_def)
  have b: "some_positive mock_base_scores"
    by (simp add: some_positive_def mock_base_scores_def)
  show ?thesis
    using a n b enhance_detection_sums_to_one [OF a n b, of fresh_detector sample_frame]
    by simp
qed

subsection \<open>Bounded rings\<close>

lemma ring_append_last_n:
  "length ring \<le> bound \<Longrightarrow> ring_append bound ring x = last_n bound (ring @ [x])"
  by (cases ring) (auto simp: ring_append_def last_n_def Let_def Suc_diff_le)

lemma last_n_last_n_append:
  "last_n n (last_n n xs @ ys) = last_n n (xs @ ys)"
proof (cases "length xs \<le> n")
  case True
  then show ?thesis by (simp add: last_n_def)
next
  case False
  then have "length xs + length ys - (length xs - n + n) + (length xs - n)
             = length xs + length ys - n"
    by arith
  then show ?thesis by (simp add: last_n_def)
qed

lemma last_n_length: "length (last_n n xs) \<le> n"
  by (simp add: last_n_def)

lemma last_n_id: "length xs \<le> n \<Longrightarrow> last_n n xs = xs"
  by (simp add: last_n_def)

lemma step_alert_history:
  "alert_history (on_mqtt_message st m) =
     (case delivered_alert m of
        None \<Rightarrow> alert_history st
      | Some p \<Rightarrow> ring_append 1000 (alert_history st) p)"
  by (auto simp: on_mqtt_message_def delivered_alert_def py_setitem_def Let_def
      split: option.splits pyval.splits sum.splits)

lemma step_health_history:
  "health_history (on_mqtt_message st m) =
     (case delivered_health m of
        None \<Rightarrow> health_history st
      | Some p \<Rightarrow> ring_append 500 (health_history st) p)"
  by (auto simp: on_mqtt_message_def delivered_health_def py_setitem_def Let_def
      split: option.splits pyval.splits sum.splits)

lemma handle_alert_history:
  "length (alert_history st) \<le> 1000 \<Longrightarrow>
   alert_history (handle_messages st ms) = last_n 1000 (alert_history st @ delivered_alerts ms)"
proof (induction ms arbitrary: st)
  case Nil
  then show ?case
    by (simp add: handle_messages_def delivered_alerts_def map_filter_simps last_n_id)
next
  case (Cons m ms)
  let ?st = "on_mqtt_message st m"
  show ?case
  proof (cases "delivered_alert m")
    case None
    then have "alert_history ?st = alert_history st"
      by (simp add: step_alert_history)
    with Cons None show ?thesis
      by (simp add: handle_messages_def delivered_alerts_def map_filter_simps)
  next
    case (Some p)
    then have h: "alert_history ?st = last_n 1000 (alert_history st @ [p])"
      using Cons.prems by (simp add: step_alert_history ring_append_last_n)
    then have "length (alert_history ?st) \<le> 1000"
      by (simp add: last_n_length)
    from Cons.IH [OF this] h Some show ?thesis
      by (simp add: handle_messages_def delivered_alerts_def map_filter_simps
          last_n_last_n_append)
  qed
qed

lemma handle_health_history:
  "length (health_history st) \<le> 500 \<Longrightarrow>
   health_history (handle_messages st ms) = last_n 500 (health_history st @ delivered_healths ms)"
proof (induction ms arbitrary: st)
  case Nil
  then show ?case
    by (simp add: handle_messages_def delivered_healths_def map_filter_simps last_n_id)
next
  case (Cons m ms)
  let ?st = "on_mqtt_message st m"
  show ?case
  proof (cases "delivered_health m")
    case None
    then have "health_history ?st = health_history st"
      by (simp add: step_health_history)
    with Cons None show ?thesis
      by (simp add: handle_messages_def delivered_healths_def map_filter_simps)
  next
    case (Some p)
    then have h: "health_history ?st = last_n 500 (health_history st @ [p])"
      using Cons.prems by (simp add: step_health_history ring_append_last_n)
    then have "length (health_history ?st) \<le> 500"
      by (simp add: last_n_length)
    from Cons.IH [OF this] h Some show ?thesis
      by (simp add: handle_messages_def delivered_healths_def map_filter_simps
          last_n_last_n_append)
  qed
qed

lemma ring_append_bounded:
  "length ring \<le> bound \<Longrightarrow> length (ring_append bound ring x) \<le> bound"
  by (simp add: ring_append_last_n last_n_length)

text \<open>
  Claim C8. Starting from the empty rings, after any sequence of bus messages that delivers
  1500 alert payloads the alert ring holds the last 1000 of them in arrival order, and
  after any sequence that delivers 600 health payloads the health ring holds the last 500
  of them; and every message-handling step keeps the alert ring within 1000 and the health
  ring within 500 entries.
\<close>

theorem bounded_rings:
  "(length (delivered_alerts ms) = 1500 \<longrightarrow>
      alert_history (handle_messages initial_api_state ms) = drop 500 (delivered_alerts ms)
      \<and> length (alert_history (handle_messages initial_api_state ms)) = 1000)
   \<and> (length (delivered_healths ms) = 600 \<longrightarrow>
      health_history (handle_messages initial_api_state ms) = drop 100 (delivered_healths ms)
      \<and> length (health_history (handle_messages initial_api_state ms)) = 500)
   \<and> (length (alert_history st) \<le> 1000 \<longrightarrow>
        length (alert_history (on_mqtt_message st m)) \<le> 1000)
   \<and> (length (health_history st) \<le> 500 \<longrightarrow>
        length (health_history (on_mqtt_message st m)) \<le> 500)"
proof (intro conjI impI)
  assume n: "length (delivered_alerts ms) = 1500"
  have "alert_history (handle_messages initial_api_state ms) = last_n 1000 (delivered_alerts ms)"
    using handle_alert_history [of initial_api_state ms] by (simp add: initial_api_state_def)
  with n show "alert_history (handle_messages initial_api_state ms) = drop 500 (delivered_alerts ms)"
    by (simp add: last_n_def)
  with n show "length (alert_history (handle_messages initial_api_state ms)) = 1000"
    by simp
next
  assume n: "length (delivered_healths ms) = 600"
  have "health_history (handle_messages initial_api_state ms) = last_n 500 (delivered_healths ms)"
    using handle_health_history [of initial_api_state ms] by (simp add: initial_api_state_def)
  with n show "health_history (handle_messages initial_api_state ms) = drop 100 (delivered_healths ms)"
    by (simp add: last_n_def)
  with n show "length (health_history (handle_messages initial_api_state ms)) = 500"
    by simp
next
  assume "length (alert_history st) \<le> 1000"
  then show "length (alert_history (on_mqtt_message st m)) \<le> 1000"
    by (simp add: step_alert_history ring_append_bounded split: option.splits)
next
  assume "length (health_history st) \<le> 500"
  then show "length (health_history (on_mqtt_message st m)) \<le> 500"
    by (simp add: step_health_history ring_append_bounded split: option.splits)
qed

lemma map_filter_map_Some:
  "(\<And>x. f (g x) = Some (h x)) \<Longrightarrow> List.map_filter f (map g xs) = map h xs"
  by (induction xs) (simp_all add: map_filter_simps)

lemma map_filter_map_None:
  "(\<And>x. f (g x) = None) \<Longrightarrow> List.map_filter f (map g xs) = []"
  by (induction xs) (simp_all add: map_filter_simps)

lemma map_filter_append:
  "List.map_filter f (xs @ ys) = List.map_filter f xs @ List.map_filter f ys"
  by (simp add: List.map_filter_def)

lemma delivered_alert_alert_message:
  "delivered_alert (alert_message i) =
     Some (PDict [(''people_count'', PNum (real i)),
                  (''received_at'', PStr ''2024-01-01T00:00:00'')])"
  by (simp add: delivered_alert_def alert_message_def)

lemma delivered_alert_health_message: "delivered_alert (health_message i) = None"
  by (simp add: delivered_alert_def health_message_def)

lemma delivered_health_alert_message: "delivered_health (alert_message i) = None"
  by (simp add: delivered_health_def alert_message_def)

lemma delivered_health_health_message:
  "delivered_health (health_message i) =
     Some (PDict [(''uptime'', PNum (real i)), (''grid_id'', PStr ''G01'')])"
  by (simp add: delivered_health_def health_message_def py_index_def)

lemma sample_traffic_alerts:
  "delivered_alerts sample_traffic =
     map (\<lambda>i. PDict [(''people_count'', PNum (real i)),
                      (''received_at'', PStr ''2024-01-01T00:00:00'')]) [0..<1500]"
  unfolding delivered_alerts_def sample_traffic_def map_filter_append
  by (simp only: map_filter_map_Some [of delivered_alert alert_message, OF delivered_alert_alert_message]
      map_filter_map_None [of delivered_alert health_message, OF delivered_alert_health_message]
      append_Nil2)

lemma sample_traffic_healths:
  "delivered_healths sample_traffic =
     map (\<lambda>i. PDict [(''uptime'', PNum (real i)), (''grid_id'', PStr ''G01'')]) [0..<600]"
  unfolding delivered_healths_def sample_traffic_def map_filter_append
  by (simp only: map_filter_map_Some [of delivered_health health_message, OF delivered_health_health_message]
      map_filter_map_None [of delivered_health alert_message, OF delivered_health_alert_message]
      append_Nil)

theorem bounded_rings_witness:
  "length (delivered_alerts sample_traffic) = 1500
   \<and> length (delivered_healths sample_traffic) = 600
   \<and> length (alert_history initial_api_state) \<le> 1000
   \<and> length (health_history initial_api_state) \<le> 500
   \<and> alert_history (handle_messages initial_api_state sample_traffic)
        = drop 500 (delivered_alerts sample_traffic)
   \<and> health_history (handle_messages initial_api_state sample_traffic)
        = drop 100 (delivered_healths sample_traffic)
   \<and> length (alert_history (on_mqtt_message initial_api_state (alert_message 0))) \<le> 1000
   \<and> length (health_history (on_mqtt_message initial_api_state (alert_message 0))) \<le> 500"
proof -
  have a: "length (delivered_alerts sample_traffic) = 1500"
    by (simp add: sample_traffic_alerts)
  have b: "length (delivered_healths sample_traffic) = 600"
    by (simp add: sample_traffic_healths)
  have c: "length (alert_history initial_api_state) \<le> 1000"
    by (simp add: initial_api_state_def)
  have d: "length (health_history initial_api_state) \<le> 500"
    by (simp add: initial_api_state_def)
  show ?thesis
    using a b c d bounded_rings [of sample_traffic initial_api_state "alert_message 0"]
    by blast
qed

subsection \<open>Alert route\<close>

lemma filter_severity_dicts:
  "ring_of_dicts xs \<Longrightarrow> filter_severity s xs = Inr (filter (has_severity s) xs)"
  by (induction xs)
     (auto simp: ring_of_dicts_def is_dict_def severity_is_def py_get_def ebind_def
        has_severity_def split: pyval.splits option.splits)

lemma slice_last_n: "1 \<le> L \<Longrightarrow> py_slice_from xs (- L) = last_n (nat L) xs"
  by (auto simp: py_slice_from_def last_n_def Let_def max_def intro!: arg_cong [where f = "\<lambda>k. drop k xs"])

lemma last_n_dicts: "ring_of_dicts xs \<Longrightarrow> ring_of_dicts (last_n n xs)"
  by (auto simp: ring_of_dicts_def last_n_def list_all_iff dest: in_set_dropD)

lemma ring_append_dicts:
  "ring_of_dicts ring \<Longrightarrow> is_dict x \<Longrightarrow> ring_of_dicts (ring_append n ring x)"
  by (cases ring) (auto simp: ring_of_dicts_def ring_append_def Let_def)

lemma delivered_alert_dict: "delivered_alert m = Some p \<Longrightarrow> is_dict p"
  by (auto simp: delivered_alert_def is_dict_def split: option.splits pyval.splits if_splits)

lemma on_mqtt_message_dicts:
  "ring_of_dicts (alert_history st) \<Longrightarrow> ring_of_dicts (alert_history (on_mqtt_message st m))"
  by (auto simp: step_alert_history ring_append_dicts delivered_alert_dict split: option.splits)

lemma handle_messages_dicts:
  "ring_of_dicts (alert_history st) \<Longrightarrow> ring_of_dicts (alert_history (handle_messages st ms))"
  unfolding handle_messages_def
  by (induction ms arbitrary: st) (simp_all add: on_mqtt_message_dicts)

lemma get_alerts_limit_then_filter:
  assumes "1 \<le> L" and "severity \<noteq> []" and "ring_of_dicts (alert_history st)"
  shows "get_alerts st (Some L) (Some severity) =
           Inr (promised_response (alert_history st) (nat L) severity)"
proof -
  have "filter_severity severity (last_n (nat L) (alert_history st)) =
          Inr (filter (has_severity severity) (last_n (nat L) (alert_history st)))"
    using assms(3) by (intro filter_severity_dicts last_n_dicts)
  then show ?thesis
    using assms(1,2)
    by (simp add: get_alerts_def slice_last_n ebind_def promised_response_def
        promised_alerts_def Let_def)
qed

text \<open>
  Claim C10, as stated for every request, fails on the code at two kinds of request. With
  \<open>limit=0\<close> the slice \<open>alert_history[-0:]\<close> is the whole ring, so all three critical
  alerts of the sample ring are returned where the last 0 entries hold none. With an empty
  \<open>severity\<close> the guard \<open>if severity\<close> skips the filter, so the two low alerts are
  returned although their severity is not the empty string.
\<close>

theorem get_alerts_claim_counterexample:
  "get_alerts sample_ring (Some 0) (Some ''critical'')
     \<noteq> Inr (promised_response (alert_history sample_ring) 0 ''critical'')
   \<and> get_alerts sample_ring (Some 2) (Some [])
     \<noteq> Inr (promised_response (alert_history sample_ring) 2 [])"
  by (simp add: get_alerts_def sample_ring_def alert_of_def py_slice_from_def ebind_def
      severity_is_def py_get_def promised_response_def promised_alerts_def last_n_def
      has_severity_def Let_def)

text \<open>
  Claim C10, amended. For every request with a limit \<open>L \<ge> 1\<close> and a severity that is not
  empty, on a ring of JSON objects (every ring the subscriber builds is one), the handler
  truncates the ring to its last \<open>L\<close> entries and then filters: the response holds
  exactly the alerts of that severity among the last \<open>L\<close> entries, newest first. It can
  hold fewer than \<open>L\<close> such alerts although more are in the ring: on the sample ring,
  limit 2 and severity critical give an empty response while three critical alerts sit
  before the last two entries.
\<close>

theorem get_alerts_truncates_then_filters:
  "(1 \<le> L \<and> severity \<noteq> [] \<and> ring_of_dicts (alert_history st) \<longrightarrow>
      get_alerts st (Some L) (Some severity) =
        Inr (promised_response (alert_history st) (nat L) severity))
   \<and> ring_of_dicts (alert_history (handle_messages initial_api_state ms))
   \<and> get_alerts sample_ring (Some 2) (Some ''critical'') =
        Inr \<lparr>resp_success = True, resp_count = 0, resp_alerts = []\<rparr>
   \<and> length (filter (has_severity ''critical'') (alert_history sample_ring)) = 3"
proof (intro conjI impI)
  assume "1 \<le> L \<and> severity \<noteq> [] \<and> ring_of_dicts (alert_history st)"
  then show "get_alerts st (Some L) (Some severity) =
        Inr (promised_response (alert_history st) (nat L) severity)"
    by (simp add: get_alerts_limit_then_filter)
next
  show "ring_of_dicts (alert_history (handle_messages initial_api_state ms))"
    by (rule handle_messages_dicts) (simp add: initial_api_state_def ring_of_dicts_def)
next
  show "get_alerts sample_ring (Some 2) (Some ''critical'') =
        Inr \<lparr>resp_success = True, resp_count = 0, resp_alerts = []\<rparr>"
    by (simp add: get_alerts_def sample_ring_def alert_of_def py_slice_from_def ebind_def
        severity_is_def py_get_def Let_def)
next
  show "length (filter (has_severity ''critical'') (alert_history sample_ring)) = 3"
    by (simp add: sample_ring_def alert_of_def has_severity_def)
qed

theorem get_alerts_truncates_then_filters_witness:
  "(1::int) \<le> 4 \<and> ''critical'' \<noteq> [] \<and> ring_of_dicts (alert_history sample_ring)
   \<and> get_alerts sample_ring (Some 4) (Some ''critical'') =
        Inr (promised_response (alert_history sample_ring) (nat 4) ''critical'')
   \<and> resp_alerts (promised_response (alert_history sample_ring) (nat 4) ''critical'') =
        [alert_of ''A3'' ''critical'', alert_of ''A2'' ''critical'']"
proof -
  have a: "(1::int) \<le> 4 \<and> ''critical'' \<noteq> [] \<and> ring_of_dicts (alert_history sample_ring)"
    by (simp add: ring_of_dicts_def sample_ring_def alert_of_def is_dict_def)
  have b: "resp_alerts (promised_response (alert_history sample_ring) (nat 4) ''critical'') =
        [alert_of ''A3'' ''critical'', alert_of ''A2'' ''critical'']"
    by (simp add: promised_response_def promised_alerts_def last_n_def sample_ring_def
        alert_of_def has_severity_def)
  show ?thesis
    using a b get_alerts_truncates_then_filters [of 4 "''critical''" sample_ring]
    by blast
qed

subsection \<open>Configuration\<close>

lemma get_path_lacking: "\<not> has_path v ks \<Longrightarrow> \<exists>e. get_path v ks = Inl e"
  by (induction v ks rule: has_path.induct)
     (auto simp: py_getitem_def ebind_def split: option.splits)

lemma map_of_update_same: "map_of (AList.update k v kvs) k = Some v"
  by (simp add: update_conv')

lemma settable_empty: "ks \<noteq> [] \<Longrightarrow> settable (PDict []) ks"
proof (cases ks)
  case Nil
  then show "ks \<noteq> [] \<Longrightarrow> ?thesis" by simp
next
  case (Cons k ks')
  then show ?thesis by (cases ks') simp_all
qed

lemma set_then_get:
  "settable cfg ks \<Longrightarrow>
     \<exists>cfg'. set_path cfg ks v = Inr cfg' \<and> get_path cfg' ks = Inr v \<and> has_path cfg' ks"
proof (induction ks arbitrary: cfg)
  case Nil
  then show ?case by simp
next
  case (Cons k ks)
  then obtain kvs where cfg: "cfg = PDict kvs"
    by (cases cfg) simp_all
  show ?case
  proof (cases ks)
    case Nil
    then show ?thesis
      by (simp add: cfg py_setitem_def py_getitem_def ebind_def map_of_update_same)
  next
    case ks: (Cons k' ks')
    define child where "child = (case map_of kvs k of None \<Rightarrow> PDict [] | Some c \<Rightarrow> c)"
    define kvs1 where
      "kvs1 = (case map_of kvs k of None \<Rightarrow> AList.update k (PDict []) kvs | Some c \<Rightarrow> kvs)"
    have step: "ebind (py_contains k cfg) (\<lambda>present.
                  if present then Inr cfg else py_setitem cfg k (PDict [])) = Inr (PDict kvs1)"
      by (simp add: cfg py_contains_def py_setitem_def ebind_def kvs1_def split: option.splits)
    have look: "py_getitem (PDict kvs1) k = Inr child"
      by (simp add: py_getitem_def kvs1_def child_def map_of_update_same split: option.splits)
    have "settable child ks"
      using Cons.prems
      by (cases "map_of kvs k") (simp_all add: cfg ks child_def settable_empty)
    from Cons.IH [OF this] obtain child' where
      c: "set_path child ks v = Inr child'" "get_path child' ks = Inr v" "has_path child' ks"
      by blast
    have "set_path cfg (k # ks) v = Inr (PDict (AList.update k child' kvs1))"
      using step look c(1)
      by (simp add: ks cfg py_contains_def py_setitem_def ebind_def kvs1_def
          split: option.splits if_splits)
    moreover have "get_path (PDict (AList.update k child' kvs1)) (k # ks) = Inr v"
      using c(2) by (simp add: py_getitem_def ebind_def map_of_update_same)
    moreover have "has_path (PDict (AList.update k child' kvs1)) (k # ks)"
      using c(3) by (simp add: map_of_update_same)
    ultimately show ?thesis by blast
  qed
qed

lemma split_on_nonempty: "split_on sep s \<noteq> []"
  by (induction s) (auto split: list.splits)

lemma set_path_raises:
  "\<not> settable cfg ks \<Longrightarrow> \<exists>e. set_path cfg ks v = Inl e"
proof (induction cfg ks v rule: set_path.induct)
  case (1 config v)
  then show ?case by simp
next
  case (2 config k v)
  then show ?case
    by (cases config) (simp_all add: py_setitem_def)
next
  case (3 config k k' ks v)
  show ?case
  proof (cases config)
    case (PDict kvs)
    show ?thesis
    proof (cases "map_of kvs k")
      case None
      with 3 PDict show ?thesis by simp
    next
      case (Some child)
      with 3 PDict have ns: "\<not> settable child (k' # ks)"
        by simp
      obtain e where "set_path child (k' # ks) v = Inl e"
        using "3.IH" [OF ns] by blast
      then show ?thesis
        by (simp add: py_contains_def py_getitem_def PDict Some ebind_def)
    qed
  qed (auto simp: py_contains_def py_setitem_def py_getitem_def ebind_def)
qed

text \<open>
  Claim C9 says that \<open>set(k, v)\<close> followed by \<open>get(k)\<close> returns \<open>v\<close> for every key
  path, \<open>set\<close> creating the intermediate maps that are missing. The code does not do so
  where the path runs through a value that is not a map: on the default document
  \<open>set("mqtt.host.name", 5)\<close> raises TypeError, since \<open>mqtt.host\<close> holds the string
  \<open>localhost\<close> and a string takes no item assignment. No document comes out of the
  call, so no \<open>get\<close> returns 5. \<open>get\<close> itself meets the same mismatch on that path and
  answers with the default.
\<close>

theorem config_set_raises_through_value:
  "config_set default_config ''mqtt.host.name'' (PNum 5) = Inl TypeError
   \<and> config_get default_config ''mqtt.host.name'' (PStr ''x'') = PStr ''x''"
  by (simp add: config_set_def config_get_def default_config_def py_contains_def
      py_getitem_def py_setitem_def ebind_def)

text \<open>
  What does hold of \<open>get\<close> and \<open>set\<close>: \<open>get("mqtt.host", "x")\<close> on the default
  document returns \<open>localhost\<close>; for every document lacking a dotted path, \<open>get\<close> of
  that path returns the supplied default; and for every key path along which every value
  met before the last key is a map, \<open>set(k, v)\<close> returns and a following \<open>get(k)\<close>
  returns \<open>v\<close>, \<open>set\<close> having created the intermediate maps that were missing.
\<close>

lemma config_access_on_maps:
  "config_get default_config ''mqtt.host'' (PStr ''x'') = PStr ''localhost''
   \<and> (\<not> has_path cfg (split_on CHR ''.'' key) \<longrightarrow> config_get cfg key d = d)
   \<and> (settable cfg (split_on CHR ''.'' key) \<longrightarrow>
        (\<exists>cfg'. config_set cfg key v = Inr cfg' \<and> config_get cfg' key d = v
                \<and> has_path cfg' (split_on CHR ''.'' key)))"
proof (intro conjI impI)
  show "config_get default_config ''mqtt.host'' (PStr ''x'') = PStr ''localhost''"
    by (simp add: config_get_def default_config_def py_getitem_def ebind_def)
next
  assume "\<not> has_path cfg (split_on CHR ''.'' key)"
  then obtain e where "get_path cfg (split_on CHR ''.'' key) = Inl e"
    using get_path_lacking by blast
  then show "config_get cfg key d = d"
    by (simp add: config_get_def)
next
  assume "settable cfg (split_on CHR ''.'' key)"
  then obtain cfg' where "set_path cfg (split_on CHR ''.'' key) v = Inr cfg'"
    and "get_path cfg' (split_on CHR ''.'' key) = Inr v"
    and "has_path cfg' (split_on CHR ''.'' key)"
    using set_then_get by blast
  then show "\<exists>cfg'. config_set cfg key v = Inr cfg' \<and> config_get cfg' key d = v
                \<and> has_path cfg' (split_on CHR ''.'' key)"
    by (simp add: config_set_def config_get_def)
qed

lemma config_access_on_maps_example:
  "\<not> has_path (PDict []) (split_on CHR ''.'' ''a.b.c'')
   \<and> settable (PDict []) (split_on CHR ''.'' ''a.b.c'')
   \<and> config_get (PDict []) ''a.b.c'' (PStr ''fallback'') = PStr ''fallback''
   \<and> (\<exists>cfg'. config_set (PDict []) ''a.b.c'' (PNum 5) = Inr cfg'
              \<and> config_get cfg' ''a.b.c'' (PStr ''fallback'') = PNum 5
              \<and> has_path cfg' (split_on CHR ''.'' ''a.b.c''))"
proof -
  have a: "\<not> has_path (PDict []) (split_on CHR ''.'' ''a.b.c'')"
    by simp
  have b: "settable (PDict []) (split_on CHR ''.'' ''a.b.c'')"
    by simp
  show ?thesis
    using a b config_access_on_maps [of "PDict []" "''a.b.c''" "PStr ''fallback''" "PNum 5"]
    by blast
qed

end
